theory Spec2Isabelle
  imports Complex_Main "HOL-Library.Word" "HOL-Library.Sublist"
begin

section \<open>PlusCraft: graphics bootstrap and frame loop\<close>

text \<open>
  The repository holds two variants of one program: \<^verbatim>\<open>src/main.cpp\<close> (the cube
  variant: Direct3D 11 by default, an indexed cube drawn with a per-frame constants
  buffer) and \<^verbatim>\<open>src/unnamed/part_001\<close> (the triangle variant: OpenGL by default, three
  vertices, no buffers). Definitions of the cube variant keep the source's names;
  those of the triangle variant carry the suffix \<open>_tri\<close>.

  SDL2 and Diligent Engine are outside the repository. What their calls return is a
  field of the environment record \<open>env\<close>: the code is modelled as written, for every
  behaviour of the libraries that the C++ types allow.
\<close>

subsection \<open>Data of the source\<close>

type_synonym handle = nat

datatype WindowMode = WINDOWED | FULLSCREEN | BORDERLESS

record VideoMode =
  width :: "32 word"
  height :: "32 word"
  syncInterval :: "32 word"
  windowMode :: WindowMode

text \<open>The device kinds of \<^verbatim>\<open>dg::RENDER_DEVICE_TYPE\<close>; the source names D3D11, D3D12, GL
  and VULKAN, every other kind falls to the \<^verbatim>\<open>default\<close> label of the switch.\<close>

datatype RENDER_DEVICE_TYPE =
    RENDER_DEVICE_TYPE_UNDEFINED
  | RENDER_DEVICE_TYPE_D3D11
  | RENDER_DEVICE_TYPE_D3D12
  | RENDER_DEVICE_TYPE_GL
  | RENDER_DEVICE_TYPE_GLES
  | RENDER_DEVICE_TYPE_VULKAN
  | RENDER_DEVICE_TYPE_METAL

text \<open>The two targets the conditional compilation of the source distinguishes
  (\<^verbatim>\<open>_WIN32\<close> and \<^verbatim>\<open>__MACOSX__\<close>).\<close>

datatype platform = Win32 | MacOSX

record SwapChainDesc =
  Width :: "32 word"
  Height :: "32 word"
  BufferCount :: "nat option"

text \<open>A swap chain object: its identity and the description it reports
  (\<^verbatim>\<open>GetDesc()\<close>).\<close>

record SwapChain =
  sc_id :: handle
  sc_desc :: SwapChainDesc

text \<open>A library call either throws (a \<^verbatim>\<open>std::exception\<close> with its message) or returns
  what it stored through its output pointers; an output pointer may be left null.\<close>

datatype 'a call = Throws string | Returns 'a

datatype SDL_WindowEventID =
    SDL_WINDOWEVENT_RESIZED "32 word" "32 word"
  | SDL_WINDOWEVENT_SIZE_CHANGED "32 word" "32 word"
  | SDL_WINDOWEVENT_OTHER

datatype SDL_Event = SDL_QUIT | SDL_WINDOWEVENT SDL_WindowEventID | SDL_OTHER_EVENT

datatype VALUE_TYPE = VT_UNDEFINED | VT_UINT32 | VT_FLOAT32

text \<open>The calls made on the immediate context and on the swap chain, in the order
  they are made. \<open>DrawIndexed\<close> carries the constants the draw reads: the contents of
  the buffer bound to the shader variable \<^verbatim>\<open>Constants\<close> when the draw is issued.\<close>

datatype ('f, 'm) gpu_op =
    SetRenderTargets
  | ClearRenderTarget "'f list"
  | ClearDepthStencil 'f
  | SetVertexBuffers "handle option"
  | SetIndexBuffer "handle option"
  | SetPipelineState "handle option"
  | MapBuffer handle
  | WriteMapped handle 'm
  | UnmapBuffer handle
  | CommitShaderResources "handle option"
  | DrawIndexed VALUE_TYPE nat "'m option"
  | Draw nat
  | Present "32 word"
  | Resize "32 word" "32 word"

datatype ('f, 'm) buffer_data =
    NoData
  | VertexData "('f list \<times> 'f list) list"
  | IndexData "32 word list"
  | MatrixData 'm

record ('f, 'm) buffer =
  Size :: nat
  data :: "('f, 'm) buffer_data"

subsection \<open>The environment: SDL2, the C++ float type, BasicMath, Diligent Engine\<close>

record ('f, 'm) env =
  target :: platform
  SDL_Init :: int
  SDL_CreateWindow :: "handle option"
  float_lit :: "rat \<Rightarrow> 'f"
  float_of_int :: "int \<Rightarrow> 'f"
  fdiv :: "'f \<Rightarrow> 'f \<Rightarrow> 'f"
  M_PI_2 :: 'f
  float4x4_default :: 'm
  Projection :: "'f \<Rightarrow> 'f \<Rightarrow> 'f \<Rightarrow> 'f \<Rightarrow> bool \<Rightarrow> 'm"
  Identity :: 'm
  RotationY :: "'f \<Rightarrow> 'm"
  Translation :: "'f \<Rightarrow> 'f \<Rightarrow> 'f \<Rightarrow> 'm"
  mul :: "'m \<Rightarrow> 'm \<Rightarrow> 'm"
  Transpose :: "'m \<Rightarrow> 'm"
  LoadGraphicsEngineD3D11 :: bool
  LoadGraphicsEngineD3D12 :: bool
  CreateDeviceAndContextsD3D11 :: "(handle option \<times> handle option) call"
  CreateSwapChainD3D11 :: "handle option call"
  CreateDeviceAndContextsD3D12 :: "(handle option \<times> handle option) call"
  CreateSwapChainD3D12 :: "handle option call"
  CreateDeviceAndContextsVk :: "(handle option \<times> handle option) call"
  CreateSwapChainVk :: "handle option call"
  CreateDeviceAndSwapChainGL :: "(handle option \<times> handle option \<times> handle option) call"
  CreateShader_VS :: "handle option"
  CreateShader_PS :: "handle option"
  CreateBuffer_constants :: "handle option"
  CreateBuffer_vertex :: "handle option"
  CreateBuffer_index :: "handle option"
  CreateGraphicsPipelineState :: "handle option"
  GetStaticVariableByName_Constants :: bool
  CreateShaderResourceBinding :: "handle option"

subsection \<open>The globals of the program and the device-side state\<close>

text \<open>The static variables of the source, the two buffers that are locals of
  \<^verbatim>\<open>main\<close> (\<open>cubeVertexBuffer\<close>, \<open>cubeIndexBuffer\<close>), and the state held by the
  library objects: buffer contents, the buffer bound to the static shader variable
  \<^verbatim>\<open>Constants\<close>, and the log of context and swap chain calls.\<close>

record ('f, 'm) state =
  m_mainWindow :: "handle option"
  m_windowShouldClose :: bool
  m_pDevice :: "handle option"
  m_pImmediateContext :: "handle option"
  m_pSwapChain :: "SwapChain option"
  m_pPSO :: "handle option"
  m_pVSConstants :: "handle option"
  m_pSRB :: "handle option"
  m_projMatrix :: 'm
  m_viewMatrix :: 'm
  m_modelMatrix :: 'm
  cubeVertexBuffer :: "handle option"
  cubeIndexBuffer :: "handle option"
  buffers :: "(handle \<times> ('f, 'm) buffer) list"
  static_Constants :: "handle option"
  gpu_log :: "('f, 'm) gpu_op list"

definition initial_state :: "('f, 'm) env \<Rightarrow> ('f, 'm) state" where
  "initial_state e =
     \<lparr> m_mainWindow = None, m_windowShouldClose = False,
       m_pDevice = None, m_pImmediateContext = None, m_pSwapChain = None,
       m_pPSO = None, m_pVSConstants = None, m_pSRB = None,
       m_projMatrix = float4x4_default e, m_viewMatrix = float4x4_default e,
       m_modelMatrix = float4x4_default e,
       cubeVertexBuffer = None, cubeIndexBuffer = None,
       buffers = [], static_Constants = None, gpu_log = [] \<rparr>"

subsection \<open>InitializeGraphicsEngine\<close>

text \<open>How a call of \<^verbatim>\<open>InitializeGraphicsEngine\<close> ends: it returns, it throws, or it
  calls through a null function pointer (undefined behaviour, a crash).\<close>

datatype init_result = Completed | Raised string | Crashed

definition make_SCDesc :: "platform \<Rightarrow> VideoMode \<Rightarrow> SwapChainDesc" where
  "make_SCDesc p videoMode =
     \<lparr> Width = width videoMode, Height = height videoMode,
       BufferCount = (if p = MacOSX then Some 3 else None) \<rparr>"

definition new_SwapChain :: "SwapChainDesc \<Rightarrow> handle option \<Rightarrow> SwapChain option" where
  "new_SwapChain SCDesc p = map_option (\<lambda>h. \<lparr> sc_id = h, sc_desc = SCDesc \<rparr>) p"

text \<open>The two-call sequence shared by the D3D11, D3D12 and Vulkan cases: create device
  and context into the globals, then create the swap chain from them.\<close>

definition create_device_then_swapchain ::
  "(handle option \<times> handle option) call \<Rightarrow> handle option call \<Rightarrow> SwapChainDesc \<Rightarrow>
   ('f, 'm) state \<Rightarrow> init_result \<times> ('f, 'm) state" where
  "create_device_then_swapchain dev sc SCDesc s =
     (case dev of
        Throws msg \<Rightarrow> (Raised msg, s)
      | Returns (d, c) \<Rightarrow>
          (let s1 = s\<lparr> m_pDevice := d, m_pImmediateContext := c \<rparr> in
           case sc of
             Throws msg \<Rightarrow> (Raised msg, s1)
           | Returns p \<Rightarrow> (Completed, s1\<lparr> m_pSwapChain := new_SwapChain SCDesc p \<rparr>)))"

text \<open>\<^verbatim>\<open>src/main.cpp\<close>, lines 114 to 181. The build sets \<^verbatim>\<open>ENGINE_DLL\<close>, so the D3D11
  and D3D12 cases call the entry point that \<^verbatim>\<open>LoadGraphicsEngineD3D1x\<close> returned; the
  Vulkan case calls \<^verbatim>\<open>dg::GetEngineFactoryVk\<close> itself. There is no OpenGL case.\<close>

definition InitializeGraphicsEngine ::
  "('f, 'm) env \<Rightarrow> VideoMode \<Rightarrow> RENDER_DEVICE_TYPE \<Rightarrow> ('f, 'm) state \<Rightarrow>
   init_result \<times> ('f, 'm) state" where
  "InitializeGraphicsEngine e videoMode renderDeviceType s =
     (let SCDesc = make_SCDesc (target e) videoMode in
      if renderDeviceType = RENDER_DEVICE_TYPE_D3D11 \<and> target e = Win32 then
        (if LoadGraphicsEngineD3D11 e
         then create_device_then_swapchain
                (CreateDeviceAndContextsD3D11 e) (CreateSwapChainD3D11 e) SCDesc s
         else (Crashed, s))
      else if renderDeviceType = RENDER_DEVICE_TYPE_D3D12 \<and> target e = Win32 then
        (if LoadGraphicsEngineD3D12 e
         then create_device_then_swapchain
                (CreateDeviceAndContextsD3D12 e) (CreateSwapChainD3D12 e) SCDesc s
         else (Crashed, s))
      else if renderDeviceType = RENDER_DEVICE_TYPE_VULKAN then
        create_device_then_swapchain
          (CreateDeviceAndContextsVk e) (CreateSwapChainVk e) SCDesc s
      else (Raised ''Unsupported render device type'', s))"

text \<open>\<^verbatim>\<open>src/unnamed/part_001\<close>, lines 99 to 186. Every case calls the factory getter
  of namespace \<^verbatim>\<open>dg\<close>; the OpenGL case creates device, context and swap chain in one
  call.\<close>

definition InitializeGraphicsEngine_tri ::
  "('f, 'm) env \<Rightarrow> VideoMode \<Rightarrow> RENDER_DEVICE_TYPE \<Rightarrow> ('f, 'm) state \<Rightarrow>
   init_result \<times> ('f, 'm) state" where
  "InitializeGraphicsEngine_tri e videoMode renderDeviceType s =
     (let SCDesc = make_SCDesc (target e) videoMode in
      if renderDeviceType = RENDER_DEVICE_TYPE_D3D11 \<and> target e = Win32 then
        create_device_then_swapchain
          (CreateDeviceAndContextsD3D11 e) (CreateSwapChainD3D11 e) SCDesc s
      else if renderDeviceType = RENDER_DEVICE_TYPE_D3D12 \<and> target e = Win32 then
        create_device_then_swapchain
          (CreateDeviceAndContextsD3D12 e) (CreateSwapChainD3D12 e) SCDesc s
      else if renderDeviceType = RENDER_DEVICE_TYPE_GL then
        (case CreateDeviceAndSwapChainGL e of
           Throws msg \<Rightarrow> (Raised msg, s)
         | Returns (d, c, p) \<Rightarrow>
             (Completed, s\<lparr> m_pDevice := d, m_pImmediateContext := c,
                             m_pSwapChain := new_SwapChain SCDesc p \<rparr>))
      else if renderDeviceType = RENDER_DEVICE_TYPE_VULKAN then
        create_device_then_swapchain
          (CreateDeviceAndContextsVk e) (CreateSwapChainVk e) SCDesc s
      else (Raised ''Unsupported render device type'', s))"

subsection \<open>Library objects used by the frame loop\<close>

definition ctx_call :: "('f, 'm) gpu_op \<Rightarrow> ('f, 'm) state \<Rightarrow> ('f, 'm) state" where
  "ctx_call op s = s\<lparr> gpu_log := gpu_log s @ [op] \<rparr>"

text \<open>Modelled from the spec: \<^verbatim>\<open>ISwapChain::Resize\<close> of Diligent Engine, which is not
  under src/. Section 4.2: resize "instructs the swapchain to reallocate its back
  buffers to the new dimensions"; the swap chain then reports the new dimensions.\<close>

definition ISwapChain_Resize ::
  "SwapChain \<Rightarrow> 32 word \<Rightarrow> 32 word \<Rightarrow> ('f, 'm) state \<Rightarrow> ('f, 'm) state" where
  "ISwapChain_Resize sc w h s =
     ctx_call (Resize w h)
       (s\<lparr> m_pSwapChain := Some (sc\<lparr> sc_desc := (sc_desc sc)\<lparr> Width := w, Height := h \<rparr> \<rparr>) \<rparr>)"

fun buffer_write ::
  "handle \<Rightarrow> ('f, 'm) buffer_data \<Rightarrow> (handle \<times> ('f, 'm) buffer) list \<Rightarrow>
   (handle \<times> ('f, 'm) buffer) list" where
  "buffer_write h d [] = []"
| "buffer_write h d ((k, b) # bs) =
     (if k = h then (k, b\<lparr> data := d \<rparr>) # bs else (k, b) # buffer_write h d bs)"

text \<open>Modelled from the spec: \<^verbatim>\<open>dg::MapHelper\<close> of Diligent Engine, which is not under
  src/. Section 4.4: "a scoped write-map operation returning a typed pointer valid
  only for the duration of the scope, with guaranteed unmap/flush on every exit path
  before the buffer is next read by a draw call". The block of lines 394 to 398 maps
  the buffer, stores one matrix through the pointer and unmaps at the closing brace.\<close>

definition MapHelper_store :: "handle \<Rightarrow> 'm \<Rightarrow> ('f, 'm) state \<Rightarrow> ('f, 'm) state" where
  "MapHelper_store h m s =
     ctx_call (UnmapBuffer h)
       ((ctx_call (WriteMapped h m) (ctx_call (MapBuffer h) s))
          \<lparr> buffers := buffer_write h (MatrixData m) (buffers s) \<rparr>)"

text \<open>What a draw reads through the shader variable \<^verbatim>\<open>Constants\<close>: the matrix held by
  the buffer bound to it.\<close>

definition visible_constants :: "('f, 'm) state \<Rightarrow> 'm option" where
  "visible_constants s =
     (case static_Constants s of
        None \<Rightarrow> None
      | Some h \<Rightarrow>
          (case map_of (buffers s) h of
             None \<Rightarrow> None
           | Some b \<Rightarrow> (case data b of MatrixData m \<Rightarrow> Some m | _ \<Rightarrow> None)))"

definition create_buffer ::
  "handle option \<Rightarrow> ('f, 'm) buffer \<Rightarrow> (handle \<times> ('f, 'm) buffer) list \<Rightarrow>
   (handle \<times> ('f, 'm) buffer) list" where
  "create_buffer p b bs = (case p of None \<Rightarrow> bs | Some h \<Rightarrow> (h, b) # bs)"

subsection \<open>The cube variant: resize, events, render step, frame loop\<close>

text \<open>In the functions of the loop \<open>None\<close> stands for the dereference of a null
  \<^verbatim>\<open>RefCntAutoPtr\<close> (undefined behaviour).\<close>

text \<open>\<^verbatim>\<open>src/main.cpp\<close>, lines 184 to 187.\<close>

definition OnResize ::
  "('f, 'm) env \<Rightarrow> 32 word \<Rightarrow> 32 word \<Rightarrow> ('f, 'm) state \<Rightarrow> ('f, 'm) state option" where
  "OnResize e w h s =
     (let s1 = s\<lparr> m_projMatrix :=
                  Projection e (M_PI_2 e)
                    (fdiv e (float_of_int e (sint w)) (float_of_int e (sint h)))
                    (float_lit e (1 / 10)) (float_lit e 1000) False \<rparr>
      in case m_pSwapChain s1 of
           None \<Rightarrow> None
         | Some sc \<Rightarrow> Some (ISwapChain_Resize sc w h s1))"

text \<open>The body of the \<^verbatim>\<open>switch\<close> of lines 351 to 371, for one polled event.\<close>

fun handle_event ::
  "('f, 'm) env \<Rightarrow> SDL_Event \<Rightarrow> ('f, 'm) state \<Rightarrow> ('f, 'm) state option" where
  "handle_event e SDL_QUIT s = Some (s\<lparr> m_windowShouldClose := True \<rparr>)"
| "handle_event e (SDL_WINDOWEVENT (SDL_WINDOWEVENT_RESIZED newWidth newHeight)) s =
     OnResize e newWidth newHeight s"
| "handle_event e (SDL_WINDOWEVENT (SDL_WINDOWEVENT_SIZE_CHANGED newWidth newHeight)) s =
     OnResize e newWidth newHeight s"
| "handle_event e (SDL_WINDOWEVENT SDL_WINDOWEVENT_OTHER) s = Some s"
| "handle_event e SDL_OTHER_EVENT s = Some s"

text \<open>\<^verbatim>\<open>while (SDL_PollEvent(&ev))\<close>, line 350: the list holds the events that the
  successive polls of one iteration return before a poll finds the queue empty.\<close>

fun poll_events ::
  "('f, 'm) env \<Rightarrow> SDL_Event list \<Rightarrow> ('f, 'm) state \<Rightarrow> ('f, 'm) state option" where
  "poll_events e [] s = Some s"
| "poll_events e (ev # evs) s =
     (case handle_event e ev s of None \<Rightarrow> None | Some s1 \<Rightarrow> poll_events e evs s1)"

definition ClearColor :: "('f, 'm) env \<Rightarrow> 'f list" where
  "ClearColor e =
     [float_lit e (35 / 100), float_lit e (35 / 100), float_lit e (35 / 100), float_lit e 1]"

text \<open>Line 392: the model matrix from the tick counter (a \<^verbatim>\<open>Uint32\<close>).\<close>

definition model_at :: "('f, 'm) env \<Rightarrow> 32 word \<Rightarrow> 'm" where
  "model_at e ticks =
     mul e (RotationY e (fdiv e (float_of_int e (uint ticks)) (float_lit e 500)))
           (Translation e (float_lit e 0) (float_lit e 0) (float_lit e 5))"

text \<open>Lines 402 to 406.\<close>

definition DrawIndexed_call :: "('f, 'm) state \<Rightarrow> ('f, 'm) state" where
  "DrawIndexed_call s = ctx_call (DrawIndexed VT_UINT32 36 (visible_constants s)) s"

text \<open>\<^verbatim>\<open>src/main.cpp\<close>, lines 375 to 408: the render step and the present.\<close>

definition render ::
  "('f, 'm) env \<Rightarrow> VideoMode \<Rightarrow> 32 word \<Rightarrow> ('f, 'm) state \<Rightarrow> ('f, 'm) state option" where
  "render e videoMode ticks s =
     (case m_pSwapChain s of
        None \<Rightarrow> None
      | Some sc \<Rightarrow>
     (case m_pImmediateContext s of
        None \<Rightarrow> None
      | Some ctx \<Rightarrow>
     (let s1 = ctx_call SetRenderTargets s;
          s2 = ctx_call (ClearRenderTarget (ClearColor e)) s1;
          s3 = ctx_call (ClearDepthStencil (float_lit e 1)) s2;
          s4 = ctx_call (SetVertexBuffers (cubeVertexBuffer s3)) s3;
          s5 = ctx_call (SetIndexBuffer (cubeIndexBuffer s4)) s4;
          s6 = ctx_call (SetPipelineState (m_pPSO s5)) s5;
          s7 = s6\<lparr> m_modelMatrix := model_at e ticks \<rparr>
      in case m_pVSConstants s7 of
           None \<Rightarrow> None
         | Some cb \<Rightarrow>
             (let s8 = MapHelper_store cb
                         (Transpose e
                            (mul e (mul e (m_modelMatrix s7) (m_viewMatrix s7)) (m_projMatrix s7)))
                         s7;
                  s9 = ctx_call (CommitShaderResources (m_pSRB s8)) s8;
                  s10 = DrawIndexed_call s9
              in Some (ctx_call (Present (syncInterval videoMode)) s10)))))"

text \<open>One iteration of the \<^verbatim>\<open>do\<close> loop of lines 348 to 409: its input is the value
  \<^verbatim>\<open>SDL_GetTicks()\<close> returns in it and the events its polls return.\<close>

definition frame ::
  "('f, 'm) env \<Rightarrow> VideoMode \<Rightarrow> 32 word \<times> SDL_Event list \<Rightarrow> ('f, 'm) state \<Rightarrow>
   ('f, 'm) state option" where
  "frame e videoMode inp s =
     (case poll_events e (snd inp) s of
        None \<Rightarrow> None
      | Some s1 \<Rightarrow> render e videoMode (fst inp) s1)"

text \<open>How a run over a finite list of iteration inputs ends: the loop condition found
  the close flag set, a null pointer was dereferenced, or the inputs ran out while the
  loop was still running.\<close>

datatype 's loop_result = Exited 's | NullDeref | StillRunning 's

fun main_loop ::
  "('f, 'm) env \<Rightarrow> VideoMode \<Rightarrow> (32 word \<times> SDL_Event list) list \<Rightarrow> ('f, 'm) state \<Rightarrow>
   ('f, 'm) state loop_result" where
  "main_loop e videoMode [] s = StillRunning s"
| "main_loop e videoMode (inp # inps) s =
     (case frame e videoMode inp s of
        None \<Rightarrow> NullDeref
      | Some s1 \<Rightarrow>
          if m_windowShouldClose s1 then Exited s1 else main_loop e videoMode inps s1)"

subsection \<open>The cube variant: one-time resource creation and main\<close>

text \<open>Lines 293 to 304: position and colour of the eight vertices.\<close>

definition CubeVerts :: "('f, 'm) env \<Rightarrow> ('f list \<times> 'f list) list" where
  "CubeVerts e =
     (let f = float_lit e in
      [([f (-1), f (-1), f (-1)], [f 1, f 0, f 0, f 1]),
       ([f (-1), f 1, f (-1)], [f 0, f 1, f 0, f 1]),
       ([f 1, f 1, f (-1)], [f 0, f 0, f 1, f 1]),
       ([f 1, f (-1), f (-1)], [f 1, f 1, f 1, f 1]),
       ([f (-1), f (-1), f 1], [f 1, f 1, f 0, f 1]),
       ([f (-1), f 1, f 1], [f 0, f 1, f 1, f 1]),
       ([f 1, f 1, f 1], [f 1, f 0, f 1, f 1]),
       ([f 1, f (-1), f 1], [f (2 / 10), f (2 / 10), f (2 / 10), f 1])])"

text \<open>Lines 306 to 314.\<close>

definition CubeIndices :: "32 word list" where
  "CubeIndices =
     [2, 0, 1, 2, 3, 0,
      4, 6, 5, 4, 7, 6,
      0, 7, 4, 0, 3, 7,
      1, 0, 4, 1, 4, 5,
      1, 5, 2, 5, 6, 2,
      3, 6, 7, 3, 2, 6]"

text \<open>\<^verbatim>\<open>sizeof\<close> of the types involved: a \<^verbatim>\<open>float\<close> and a \<^verbatim>\<open>uint32_t\<close> take four bytes, a
  \<^verbatim>\<open>Vertex\<close> is a \<^verbatim>\<open>float3\<close> and a \<^verbatim>\<open>float4\<close>, a \<^verbatim>\<open>float4x4\<close> is sixteen floats.\<close>

definition sizeof_uint32 :: nat where
  "sizeof_uint32 = 4"

definition sizeof_Vertex :: nat where
  "sizeof_Vertex = 3 * 4 + 4 * 4"

definition sizeof_float4x4 :: nat where
  "sizeof_float4x4 = 16 * 4"

text \<open>\<^verbatim>\<open>src/main.cpp\<close>, lines 230 to 345: pipeline state, shaders, the three buffers,
  the shader resource binding and the three matrices. The description records of
  the pipeline (formats, topology, culling, depth test, input layout) only travel
  into the library and are left out. The first dereferences of \<open>m_pSwapChain\<close>
  (line 236), \<open>m_pDevice\<close> (line 251) and \<open>m_pPSO\<close> (line 286), and of the variable
  that \<^verbatim>\<open>GetStaticVariableByName\<close> returns, are where a null pointer ends the run.\<close>

definition init_resources :: "('f, 'm) env \<Rightarrow> ('f, 'm) state \<Rightarrow> ('f, 'm) state option" where
  "init_resources e s =
     (case m_pSwapChain s of
        None \<Rightarrow> None
      | Some sc \<Rightarrow>
     (case m_pDevice s of
        None \<Rightarrow> None
      | Some dev \<Rightarrow>
     (let s1 = s\<lparr> m_pVSConstants := CreateBuffer_constants e,
                  buffers := create_buffer (CreateBuffer_constants e)
                               \<lparr> Size = sizeof_float4x4, data = NoData \<rparr> (buffers s) \<rparr>;
          s2 = s1\<lparr> m_pPSO := CreateGraphicsPipelineState e \<rparr>
      in case m_pPSO s2 of
           None \<Rightarrow> None
         | Some pso \<Rightarrow>
             if GetStaticVariableByName_Constants e then
               (let s3 = s2\<lparr> static_Constants := m_pVSConstants s2 \<rparr>;
                    s4 = s3\<lparr> cubeVertexBuffer := CreateBuffer_vertex e,
                             buffers := create_buffer (CreateBuffer_vertex e)
                               \<lparr> Size = length (CubeVerts e) * sizeof_Vertex,
                                 data = VertexData (CubeVerts e) \<rparr> (buffers s3) \<rparr>;
                    s5 = s4\<lparr> cubeIndexBuffer := CreateBuffer_index e,
                             buffers := create_buffer (CreateBuffer_index e)
                               \<lparr> Size = length CubeIndices * sizeof_uint32,
                                 data = IndexData CubeIndices \<rparr> (buffers s4) \<rparr>;
                    s6 = s5\<lparr> m_pSRB := CreateShaderResourceBinding e \<rparr>
                in Some (s6\<lparr> m_projMatrix :=
                               Projection e (M_PI_2 e)
                                 (fdiv e (float_lit e 16) (float_lit e 9))
                                 (float_lit e (1 / 10)) (float_lit e 1000) False,
                             m_viewMatrix := Identity e,
                             m_modelMatrix := Identity e \<rparr>))
             else None)))"

text \<open>How the process ends: \<^verbatim>\<open>main\<close> returns a status, a null pointer is dereferenced
  or called, or the frame loop is still running when the given inputs run out.\<close>

datatype outcome = Exit int | Crash | Running

text \<open>Line 198.\<close>

definition videoMode_main :: VideoMode where
  "videoMode_main = \<lparr> width = 1920, height = 1080, syncInterval = 1, windowMode = WINDOWED \<rparr>"

text \<open>\<^verbatim>\<open>src/main.cpp\<close>, lines 189 to 411, over the inputs of the iterations of the
  frame loop. The result is the status and the final state. The log messages, the
  window flags handed to \<^verbatim>\<open>SDL_CreateWindow\<close> and the \<^verbatim>\<open>atexit\<close> handler that destroys
  the window have no part in the state and are left out.\<close>

definition main ::
  "('f, 'm) env \<Rightarrow> (32 word \<times> SDL_Event list) list \<Rightarrow> outcome \<times> ('f, 'm) state" where
  "main e inps =
     (let s0 = initial_state e in
      if SDL_Init e \<noteq> 0 then (Exit (- 1), s0)
      else
        (let s1 = s0\<lparr> m_mainWindow := SDL_CreateWindow e \<rparr> in
         if m_mainWindow s1 = None then (Exit (- 3), s1)
         else
           (case InitializeGraphicsEngine e videoMode_main RENDER_DEVICE_TYPE_D3D11 s1 of
              (Raised msg, s2) \<Rightarrow> (Exit (- 5), s2)
            | (Crashed, s2) \<Rightarrow> (Crash, s2)
            | (Completed, s2) \<Rightarrow>
                (case init_resources e s2 of
                   None \<Rightarrow> (Crash, s2)
                 | Some s3 \<Rightarrow>
                     (case main_loop e videoMode_main inps s3 of
                        Exited s4 \<Rightarrow> (Exit 0, s4)
                      | NullDeref \<Rightarrow> (Crash, s3)
                      | StillRunning s4 \<Rightarrow> (Running, s4))))))"

subsection \<open>The triangle variant\<close>

text \<open>\<^verbatim>\<open>src/unnamed/part_001\<close>, lines 287 to 294: the \<^verbatim>\<open>break\<close> belongs to the
  \<^verbatim>\<open>while\<close>, so polling stops at the first quit event. The result holds the events
  that were not polled.\<close>

fun poll_events_tri ::
  "SDL_Event list \<Rightarrow> ('f, 'm) state \<Rightarrow> ('f, 'm) state \<times> SDL_Event list" where
  "poll_events_tri [] s = (s, [])"
| "poll_events_tri (ev # evs) s =
     (if ev = SDL_QUIT then (s\<lparr> m_windowShouldClose := True \<rparr>, evs)
      else poll_events_tri evs s)"

text \<open>Lines 297 to 312; \<^verbatim>\<open>Present()\<close> takes its default sync interval, 1.\<close>

definition render_tri :: "('f, 'm) env \<Rightarrow> ('f, 'm) state \<Rightarrow> ('f, 'm) state option" where
  "render_tri e s =
     (case m_pSwapChain s of
        None \<Rightarrow> None
      | Some sc \<Rightarrow>
     (case m_pImmediateContext s of
        None \<Rightarrow> None
      | Some ctx \<Rightarrow>
     (let s1 = ctx_call SetRenderTargets s;
          s2 = ctx_call (ClearRenderTarget (ClearColor e)) s1;
          s3 = ctx_call (ClearDepthStencil (float_lit e 1)) s2;
          s4 = ctx_call (SetPipelineState (m_pPSO s3)) s3;
          s5 = ctx_call (Draw 3) s4
      in Some (ctx_call (Present 1) s5))))"

definition frame_tri ::
  "('f, 'm) env \<Rightarrow> SDL_Event list \<Rightarrow> ('f, 'm) state \<Rightarrow> ('f, 'm) state option" where
  "frame_tri e evs s = render_tri e (fst (poll_events_tri evs s))"

fun main_loop_tri ::
  "('f, 'm) env \<Rightarrow> SDL_Event list list \<Rightarrow> ('f, 'm) state \<Rightarrow> ('f, 'm) state loop_result" where
  "main_loop_tri e [] s = StillRunning s"
| "main_loop_tri e (evs # rest) s =
     (case frame_tri e evs s of
        None \<Rightarrow> NullDeref
      | Some s1 \<Rightarrow> if m_windowShouldClose s1 then Exited s1 else main_loop_tri e rest s1)"

text \<open>Lines 242 to 281: the dereferences of \<open>m_pSwapChain\<close> (line 248) and of
  \<open>m_pDevice\<close> (line 264), and the pipeline state.\<close>

definition init_resources_tri :: "('f, 'm) env \<Rightarrow> ('f, 'm) state \<Rightarrow> ('f, 'm) state option" where
  "init_resources_tri e s =
     (case m_pSwapChain s of
        None \<Rightarrow> None
      | Some sc \<Rightarrow>
     (case m_pDevice s of
        None \<Rightarrow> None
      | Some dev \<Rightarrow> Some (s\<lparr> m_pPSO := CreateGraphicsPipelineState e \<rparr>)))"

text \<open>Line 199.\<close>

definition videoMode_tri :: VideoMode where
  "videoMode_tri = \<lparr> width = 1280, height = 720, syncInterval = 1, windowMode = WINDOWED \<rparr>"

text \<open>\<^verbatim>\<open>src/unnamed/part_001\<close>, lines 188 to 316; the OpenGL attributes and the
  OpenGL context of the window are left out with the log messages and the window
  flags.\<close>

definition main_tri ::
  "('f, 'm) env \<Rightarrow> SDL_Event list list \<Rightarrow> outcome \<times> ('f, 'm) state" where
  "main_tri e inps =
     (let s0 = initial_state e in
      if SDL_Init e \<noteq> 0 then (Exit (- 1), s0)
      else
        (let s1 = s0\<lparr> m_mainWindow := SDL_CreateWindow e \<rparr> in
         if m_mainWindow s1 = None then (Exit (- 3), s1)
         else
           (case InitializeGraphicsEngine_tri e videoMode_tri RENDER_DEVICE_TYPE_GL s1 of
              (Raised msg, s2) \<Rightarrow> (Exit (- 5), s2)
            | (Crashed, s2) \<Rightarrow> (Crash, s2)
            | (Completed, s2) \<Rightarrow>
                (case init_resources_tri e s2 of
                   None \<Rightarrow> (Crash, s2)
                 | Some s3 \<Rightarrow>
                     (case main_loop_tri e inps s3 of
                        Exited s4 \<Rightarrow> (Exit 0, s4)
                      | NullDeref \<Rightarrow> (Crash, s3)
                      | StillRunning s4 \<Rightarrow> (Running, s4))))))"

subsection \<open>A concrete environment\<close>

text \<open>The free interpretation of the matrix library: every operation builds the
  term that names it, so two matrices are equal only when they were computed the same
  way. Floats are read as rationals, handles are small numbers.\<close>

datatype mexp =
    DefaultM
  | IdentityM
  | ProjectionM rat rat rat rat bool
  | RotationYM rat
  | TranslationM rat rat rat
  | MulM mexp mexp
  | TransposeM mexp

definition env0 :: "(rat, mexp) env" where
  "env0 =
     \<lparr> target = Win32, SDL_Init = 0, SDL_CreateWindow = Some 1,
       float_lit = (\<lambda>q. q), float_of_int = rat_of_int, fdiv = (\<lambda>a b. a / b),
       M_PI_2 = 355 / 226, float4x4_default = DefaultM,
       Projection = ProjectionM, Identity = IdentityM, RotationY = RotationYM,
       Translation = TranslationM, mul = MulM, Transpose = TransposeM,
       LoadGraphicsEngineD3D11 = True, LoadGraphicsEngineD3D12 = True,
       CreateDeviceAndContextsD3D11 = Returns (Some 2, Some 3),
       CreateSwapChainD3D11 = Returns (Some 4),
       CreateDeviceAndContextsD3D12 = Returns (Some 2, Some 3),
       CreateSwapChainD3D12 = Returns (Some 4),
       CreateDeviceAndContextsVk = Returns (Some 2, Some 3),
       CreateSwapChainVk = Returns (Some 4),
       CreateDeviceAndSwapChainGL = Returns (Some 2, Some 3, Some 4),
       CreateShader_VS = Some 5, CreateShader_PS = Some 6,
       CreateBuffer_constants = Some 7, CreateBuffer_vertex = Some 8,
       CreateBuffer_index = Some 9, CreateGraphicsPipelineState = Some 10,
       GetStaticVariableByName_Constants = True,
       CreateShaderResourceBinding = Some 11 \<rparr>"

text \<open>The same environment, except that the creation of the D3D11 swap chain
  throws.\<close>

definition env_swapchain_throws :: "(rat, mexp) env" where
  "env_swapchain_throws =
     env0\<lparr> CreateSwapChainD3D11 := Throws ''Failed to create the swap chain'' \<rparr>"

section \<open>Notions used by the properties\<close>

subsection \<open>Outcomes of InitializeGraphicsEngine\<close>

text \<open>The libraries keep their side when every entry point loads and every factory
  call that returns has stored non-null objects.\<close>

definition populated1 :: "handle option call \<Rightarrow> bool" where
  "populated1 c = (case c of Throws msg \<Rightarrow> True | Returns p \<Rightarrow> p \<noteq> None)"

definition populated2 :: "(handle option \<times> handle option) call \<Rightarrow> bool" where
  "populated2 c = (case c of Throws msg \<Rightarrow> True | Returns (d, x) \<Rightarrow> d \<noteq> None \<and> x \<noteq> None)"

definition populated3 :: "(handle option \<times> handle option \<times> handle option) call \<Rightarrow> bool" where
  "populated3 c =
     (case c of
        Throws msg \<Rightarrow> True
      | Returns (d, x, p) \<Rightarrow> d \<noteq> None \<and> x \<noteq> None \<and> p \<noteq> None)"

definition factories_populate :: "('f, 'm) env \<Rightarrow> bool" where
  "factories_populate e =
     (LoadGraphicsEngineD3D11 e \<and> LoadGraphicsEngineD3D12 e \<and>
      populated2 (CreateDeviceAndContextsD3D11 e) \<and> populated1 (CreateSwapChainD3D11 e) \<and>
      populated2 (CreateDeviceAndContextsD3D12 e) \<and> populated1 (CreateSwapChainD3D12 e) \<and>
      populated2 (CreateDeviceAndContextsVk e) \<and> populated1 (CreateSwapChainVk e) \<and>
      populated3 (CreateDeviceAndSwapChainGL e))"

text \<open>The two ways a call started in state \<open>s\<close> may end: it returns with device,
  context and swap chain non-null; or it raises with the swap chain as it was, and
  then either nothing has changed or device and context, and nothing else, have been
  stored and are non-null.\<close>

definition session_outcome ::
  "('f, 'm) state \<Rightarrow> init_result \<times> ('f, 'm) state \<Rightarrow> bool" where
  "session_outcome s r =
     (case r of
        (Completed, s') \<Rightarrow>
          m_pDevice s' \<noteq> None \<and> m_pImmediateContext s' \<noteq> None \<and> m_pSwapChain s' \<noteq> None
      | (Raised msg, s') \<Rightarrow>
          m_pSwapChain s' = m_pSwapChain s \<and>
          (s' = s \<or>
           (m_pDevice s' \<noteq> None \<and> m_pImmediateContext s' \<noteq> None \<and>
            s' = s\<lparr> m_pDevice := m_pDevice s', m_pImmediateContext := m_pImmediateContext s' \<rparr>))
      | (Crashed, s') \<Rightarrow> False)"

subsection \<open>Resize and the transform state\<close>

text \<open>The swap chain after a resize, the projection matrix of line 185 for an aspect
  ratio, the aspect ratio of a width and a height (both \<^verbatim>\<open>int\<close> in \<^verbatim>\<open>OnResize\<close>), and the
  product of line 397 before it is transposed.\<close>

definition resized_desc :: "SwapChain \<Rightarrow> 32 word \<Rightarrow> 32 word \<Rightarrow> SwapChain" where
  "resized_desc sc w h = sc\<lparr> sc_desc := (sc_desc sc)\<lparr> Width := w, Height := h \<rparr> \<rparr>"

definition projection_for :: "('f, 'm) env \<Rightarrow> 'f \<Rightarrow> 'm" where
  "projection_for e a = Projection e (M_PI_2 e) a (float_lit e (1 / 10)) (float_lit e 1000) False"

definition aspect_of :: "('f, 'm) env \<Rightarrow> 32 word \<Rightarrow> 32 word \<Rightarrow> 'f" where
  "aspect_of e w h = fdiv e (float_of_int e (sint w)) (float_of_int e (sint h))"

definition combined :: "('f, 'm) env \<Rightarrow> 32 word \<Rightarrow> ('f, 'm) state \<Rightarrow> 'm" where
  "combined e ticks s = mul e (mul e (model_at e ticks) (m_viewMatrix s)) (m_projMatrix s)"

text \<open>The resize events of a list of events, as pairs of width and height, in the order
  they are polled.\<close>

fun resize_of :: "SDL_Event \<Rightarrow> (32 word \<times> 32 word) option" where
  "resize_of (SDL_WINDOWEVENT (SDL_WINDOWEVENT_RESIZED w h)) = Some (w, h)"
| "resize_of (SDL_WINDOWEVENT (SDL_WINDOWEVENT_SIZE_CHANGED w h)) = Some (w, h)"
| "resize_of ev = None"

definition resizes :: "SDL_Event list \<Rightarrow> (32 word \<times> 32 word) list" where
  "resizes evs = List.map_filter resize_of evs"

subsection \<open>Counting frames\<close>

text \<open>The presents and the draw calls in the log of a state.\<close>

fun is_present :: "('f, 'm) gpu_op \<Rightarrow> bool" where
  "is_present (Present si) = True"
| "is_present op = False"

fun is_draw :: "('f, 'm) gpu_op \<Rightarrow> bool" where
  "is_draw (DrawIndexed ty n c) = True"
| "is_draw (Draw n) = True"
| "is_draw op = False"

text \<open>The pointers an iteration dereferences are non-null.\<close>

definition loop_ready :: "('f, 'm) state \<Rightarrow> bool" where
  "loop_ready s =
     (m_pSwapChain s \<noteq> None \<and> m_pImmediateContext s \<noteq> None \<and> m_pVSConstants s \<noteq> None)"

definition loop_ready_tri :: "('f, 'm) state \<Rightarrow> bool" where
  "loop_ready_tri s = (m_pSwapChain s \<noteq> None \<and> m_pImmediateContext s \<noteq> None)"

definition presents :: "('f, 'm) state \<Rightarrow> nat" where
  "presents s = length (filter is_present (gpu_log s))"

definition draws :: "('f, 'm) state \<Rightarrow> nat" where
  "draws s = length (filter is_draw (gpu_log s))"

subsection \<open>Start of the process\<close>

text \<open>How the start of the process goes, read off the environment: \<^verbatim>\<open>SDL_Init\<close> fails,
  the window is null, or \<^verbatim>\<open>InitializeGraphicsEngine\<close> is called, and then it raises, it calls
  a null factory entry point, or it returns. That it has returned does not say that the
  backend was initialised: the pointers it leaves may be null.\<close>

datatype startup =
    SubsystemInitFailure
  | WindowCreationFailure
  | BackendInitRaised
  | BackendLoaderNull
  | BackendInitReturned

definition startup_of :: "('f, 'm) env \<Rightarrow> startup" where
  "startup_of e =
     (if SDL_Init e \<noteq> 0 then SubsystemInitFailure
      else if SDL_CreateWindow e = None then WindowCreationFailure
      else (case fst (InitializeGraphicsEngine e videoMode_main RENDER_DEVICE_TYPE_D3D11
                        ((initial_state e)\<lparr> m_mainWindow := SDL_CreateWindow e \<rparr>)) of
              Raised msg \<Rightarrow> BackendInitRaised
            | Crashed \<Rightarrow> BackendLoaderNull
            | Completed \<Rightarrow> BackendInitReturned))"

definition startup_of_tri :: "('f, 'm) env \<Rightarrow> startup" where
  "startup_of_tri e =
     (if SDL_Init e \<noteq> 0 then SubsystemInitFailure
      else if SDL_CreateWindow e = None then WindowCreationFailure
      else (case fst (InitializeGraphicsEngine_tri e videoMode_tri RENDER_DEVICE_TYPE_GL
                        ((initial_state e)\<lparr> m_mainWindow := SDL_CreateWindow e \<rparr>)) of
              Raised msg \<Rightarrow> BackendInitRaised
            | Crashed \<Rightarrow> BackendLoaderNull
            | Completed \<Rightarrow> BackendInitReturned))"

text \<open>The state \<^verbatim>\<open>InitializeGraphicsEngine\<close> leaves when \<^verbatim>\<open>main\<close> calls it.\<close>

definition backend_session :: "('f, 'm) env \<Rightarrow> ('f, 'm) state" where
  "backend_session e =
     snd (InitializeGraphicsEngine e videoMode_main RENDER_DEVICE_TYPE_D3D11
            ((initial_state e)\<lparr> m_mainWindow := SDL_CreateWindow e \<rparr>))"

definition backend_session_tri :: "('f, 'm) env \<Rightarrow> ('f, 'm) state" where
  "backend_session_tri e =
     snd (InitializeGraphicsEngine_tri e videoMode_tri RENDER_DEVICE_TYPE_GL
            ((initial_state e)\<lparr> m_mainWindow := SDL_CreateWindow e \<rparr>))"

text \<open>The status the source returns for each way the start can go: the three steps that
  the source checks have one, the other two have none.\<close>

fun failure_code :: "startup \<Rightarrow> int option" where
  "failure_code SubsystemInitFailure = Some (- 1)"
| "failure_code WindowCreationFailure = Some (- 3)"
| "failure_code BackendInitRaised = Some (- 5)"
| "failure_code BackendLoaderNull = None"
| "failure_code BackendInitReturned = None"

text \<open>Environments in which one step of the start fails.\<close>

definition env_no_video :: "(rat, mexp) env" where
  "env_no_video = env0\<lparr> SDL_Init := - 1 \<rparr>"

definition env_no_window :: "(rat, mexp) env" where
  "env_no_window = env0\<lparr> SDL_CreateWindow := None \<rparr>"

definition env_GL_throws :: "(rat, mexp) env" where
  "env_GL_throws =
     env0\<lparr> CreateDeviceAndSwapChainGL := Throws ''Failed to create the OpenGL device'' \<rparr>"

text \<open>Environments in which the backend fails without an exception: the factory calls
  return and leave every output pointer null, or the D3D11 entry point does not load.\<close>

definition env_null_outputs :: "(rat, mexp) env" where
  "env_null_outputs =
     env0\<lparr> CreateDeviceAndContextsD3D11 := Returns (None, None),
           CreateSwapChainD3D11 := Returns None,
           CreateDeviceAndSwapChainGL := Returns (None, None, None) \<rparr>"

definition env_no_loader :: "(rat, mexp) env" where
  "env_no_loader = env0\<lparr> LoadGraphicsEngineD3D11 := False \<rparr>"

subsection \<open>The calls of an iteration\<close>

text \<open>The dimensions the swap chain reports.\<close>

definition reported_size :: "('f, 'm) state \<Rightarrow> (32 word \<times> 32 word) option" where
  "reported_size s =
     map_option (\<lambda>sc. (Width (sc_desc sc), Height (sc_desc sc))) (m_pSwapChain s)"

text \<open>The calls an iteration adds to the log.\<close>

definition frame_ops :: "('f, 'm) state \<Rightarrow> ('f, 'm) state \<Rightarrow> ('f, 'm) gpu_op list" where
  "frame_ops s s' = drop (length (gpu_log s)) (gpu_log s')"

datatype call_kind =
    KSetRenderTargets | KClearRenderTarget | KClearDepthStencil | KSetVertexBuffers
  | KSetIndexBuffer | KSetPipelineState | KMapBuffer | KWriteMapped | KUnmapBuffer
  | KCommitShaderResources | KDrawIndexed | KDraw | KPresent | KResize

fun op_kind :: "('f, 'm) gpu_op \<Rightarrow> call_kind" where
  "op_kind SetRenderTargets = KSetRenderTargets"
| "op_kind (ClearRenderTarget c) = KClearRenderTarget"
| "op_kind (ClearDepthStencil d) = KClearDepthStencil"
| "op_kind (SetVertexBuffers b) = KSetVertexBuffers"
| "op_kind (SetIndexBuffer b) = KSetIndexBuffer"
| "op_kind (SetPipelineState p) = KSetPipelineState"
| "op_kind (MapBuffer b) = KMapBuffer"
| "op_kind (WriteMapped b m) = KWriteMapped"
| "op_kind (UnmapBuffer b) = KUnmapBuffer"
| "op_kind (CommitShaderResources r) = KCommitShaderResources"
| "op_kind (DrawIndexed ty n c) = KDrawIndexed"
| "op_kind (Draw n) = KDraw"
| "op_kind (Present si) = KPresent"
| "op_kind (Resize w h) = KResize"

text \<open>The kinds of the calls of one render step, in the order of the source lines.\<close>

definition render_kinds :: "call_kind list" where
  "render_kinds =
     [KSetRenderTargets, KClearRenderTarget, KClearDepthStencil, KSetVertexBuffers,
      KSetIndexBuffer, KSetPipelineState, KMapBuffer, KWriteMapped, KUnmapBuffer,
      KCommitShaderResources, KDrawIndexed, KPresent]"

definition render_kinds_tri :: "call_kind list" where
  "render_kinds_tri =
     [KSetRenderTargets, KClearRenderTarget, KClearDepthStencil, KSetPipelineState,
      KDraw, KPresent]"

text \<open>The kinds of the calls of one iteration of the cube variant: one swap chain resize
  for each resize event polled, then the render step.\<close>

definition frame_kinds :: "32 word \<times> SDL_Event list \<Rightarrow> call_kind list" where
  "frame_kinds inp = replicate (length (resizes (snd inp))) KResize @ render_kinds"

subsection \<open>The constants buffer\<close>

text \<open>The shader variable \<^verbatim>\<open>Constants\<close> is bound to the constants buffer, and the buffer
  exists on the device.\<close>

definition constants_wired :: "('f, 'm) state \<Rightarrow> bool" where
  "constants_wired s =
     (static_Constants s = m_pVSConstants s \<and>
      (case m_pVSConstants s of None \<Rightarrow> True | Some cb \<Rightarrow> map_of (buffers s) cb \<noteq> None))"

text \<open>The matrix an iteration that ends in state \<open>s'\<close> stores in the constants
  buffer: the transpose of model times view times projection, the three matrices being
  those of that iteration.\<close>

definition WorldViewProjT :: "('f, 'm) env \<Rightarrow> ('f, 'm) state \<Rightarrow> 'm" where
  "WorldViewProjT e s' =
     Transpose e (mul e (mul e (m_modelMatrix s') (m_viewMatrix s')) (m_projMatrix s'))"

subsection \<open>States of runs in the concrete environment\<close>

text \<open>The states in which the two variants enter their frame loop in the environment
  \<open>env0\<close>.\<close>

definition entry0 :: "(rat, mexp) state" where
  "entry0 =
     \<lparr> m_mainWindow = Some 1, m_windowShouldClose = False,
       m_pDevice = Some 2, m_pImmediateContext = Some 3,
       m_pSwapChain = Some \<lparr> sc_id = 4,
         sc_desc = \<lparr> Width = 1920, Height = 1080, BufferCount = None \<rparr> \<rparr>,
       m_pPSO = Some 10, m_pVSConstants = Some 7, m_pSRB = Some 11,
       m_projMatrix = ProjectionM (355 / 226) (16 / 9) (1 / 10) 1000 False,
       m_viewMatrix = IdentityM, m_modelMatrix = IdentityM,
       cubeVertexBuffer = Some 8, cubeIndexBuffer = Some 9,
       buffers = [(9, \<lparr> Size = 144, data = IndexData CubeIndices \<rparr>),
                  (8, \<lparr> Size = 224, data = VertexData (CubeVerts env0) \<rparr>),
                  (7, \<lparr> Size = 64, data = NoData \<rparr>)],
       static_Constants = Some 7, gpu_log = [] \<rparr>"

definition entry0_tri :: "(rat, mexp) state" where
  "entry0_tri =
     \<lparr> m_mainWindow = Some 1, m_windowShouldClose = False,
       m_pDevice = Some 2, m_pImmediateContext = Some 3,
       m_pSwapChain = Some \<lparr> sc_id = 4,
         sc_desc = \<lparr> Width = 1280, Height = 720, BufferCount = None \<rparr> \<rparr>,
       m_pPSO = Some 10, m_pVSConstants = None, m_pSRB = None,
       m_projMatrix = DefaultM, m_viewMatrix = DefaultM, m_modelMatrix = DefaultM,
       cubeVertexBuffer = None, cubeIndexBuffer = None,
       buffers = [], static_Constants = None, gpu_log = [] \<rparr>"

text \<open>The state after one iteration of the cube variant run from \<open>entry0\<close> with a
  tick count of 0 and a resize event to 800 by 600.\<close>

definition framed0 :: "(rat, mexp) state" where
  "framed0 =
     entry0\<lparr>
       m_projMatrix := ProjectionM (355 / 226) (4 / 3) (1 / 10) 1000 False,
       m_pSwapChain := Some \<lparr> sc_id = 4,
         sc_desc = \<lparr> Width = 800, Height = 600, BufferCount = None \<rparr> \<rparr>,
       m_modelMatrix := MulM (RotationYM 0) (TranslationM 0 0 5),
       buffers := [(9, \<lparr> Size = 144, data = IndexData CubeIndices \<rparr>),
                   (8, \<lparr> Size = 224, data = VertexData (CubeVerts env0) \<rparr>),
                   (7, \<lparr> Size = 64, data = MatrixData
                      (TransposeM (MulM (MulM (MulM (RotationYM 0) (TranslationM 0 0 5)) IdentityM)
                         (ProjectionM (355 / 226) (4 / 3) (1 / 10) 1000 False))) \<rparr>)],
       gpu_log := [Resize 800 600, SetRenderTargets,
         ClearRenderTarget [7 / 20, 7 / 20, 7 / 20, 1], ClearDepthStencil 1,
         SetVertexBuffers (Some 8), SetIndexBuffer (Some 9), SetPipelineState (Some 10),
         MapBuffer 7,
         WriteMapped 7 (TransposeM (MulM (MulM (MulM (RotationYM 0) (TranslationM 0 0 5)) IdentityM)
                         (ProjectionM (355 / 226) (4 / 3) (1 / 10) 1000 False))),
         UnmapBuffer 7, CommitShaderResources (Some 11),
         DrawIndexed VT_UINT32 36
           (Some (TransposeM (MulM (MulM (MulM (RotationYM 0) (TranslationM 0 0 5)) IdentityM)
                         (ProjectionM (355 / 226) (4 / 3) (1 / 10) 1000 False)))),
         Present 1] \<rparr>"

text \<open>The projection matrix after the resize events of a list have been handled, from
  the matrix \<open>p\<close> before them: each resize event replaces it.\<close>

fun projection_after :: "('f, 'm) env \<Rightarrow> 'm \<Rightarrow> (32 word \<times> 32 word) list \<Rightarrow> 'm" where
  "projection_after e p [] = p"
| "projection_after e p (r # rs) =
     projection_after e (projection_for e (aspect_of e (fst r) (snd r))) rs"

text \<open>The size the swap chain reports after the resize events of a list.\<close>

fun size_after ::
  "(32 word \<times> 32 word) option \<Rightarrow> (32 word \<times> 32 word) list \<Rightarrow> (32 word \<times> 32 word) option" where
  "size_after z [] = z"
| "size_after z (r # rs) = size_after (Some r) rs"

text \<open>The state \<open>entry0\<close> after \<^verbatim>\<open>OnResize(800, 600)\<close>.\<close>

definition resized0 :: "(rat, mexp) state" where
  "resized0 =
     entry0\<lparr> m_projMatrix := ProjectionM (355 / 226) (4 / 3) (1 / 10) 1000 False,
             m_pSwapChain := Some \<lparr> sc_id = 4,
               sc_desc = \<lparr> Width = 800, Height = 600, BufferCount = None \<rparr> \<rparr>,
             gpu_log := [Resize 800 600] \<rparr>"




section \<open>Properties\<close>

subsection \<open>Outcomes of InitializeGraphicsEngine\<close>

lemma create_device_then_swapchain_outcome:
  "populated2 dev \<Longrightarrow> populated1 sc \<Longrightarrow>
   session_outcome s (create_device_then_swapchain dev sc SCDesc s)"
  by (auto simp: create_device_then_swapchain_def populated2_def populated1_def
      session_outcome_def new_SwapChain_def Let_def split: call.splits)

lemma unsupported_kind_outcome: "session_outcome s (Raised msg, s)"
  by (simp add: session_outcome_def)

lemma create_GL_outcome:
  "populated3 (CreateDeviceAndSwapChainGL e) \<Longrightarrow>
   session_outcome s
     (case CreateDeviceAndSwapChainGL e of
        Throws msg \<Rightarrow> (Raised msg, s)
      | Returns (d, c, p) \<Rightarrow>
          (Completed, s\<lparr> m_pDevice := d, m_pImmediateContext := c,
                          m_pSwapChain := new_SwapChain SCDesc p \<rparr>))"
  by (auto simp: populated3_def session_outcome_def new_SwapChain_def split: call.splits)

text \<open>C1, as stated, fails: on Windows with the D3D11 kind, when device and context
  are created and the creation of the swap chain then throws,
  \<^verbatim>\<open>InitializeGraphicsEngine\<close> raises and leaves the device and context globals
  populated, with the swap chain null: a partial session. \<^verbatim>\<open>main\<close> then returns -5 with
  the globals in that state.\<close>

theorem InitializeGraphicsEngine_partial_session:
  "fst (InitializeGraphicsEngine env_swapchain_throws videoMode_main RENDER_DEVICE_TYPE_D3D11
          (initial_state env_swapchain_throws))
     = Raised ''Failed to create the swap chain'' \<and>
   m_pDevice (snd (InitializeGraphicsEngine env_swapchain_throws videoMode_main
          RENDER_DEVICE_TYPE_D3D11 (initial_state env_swapchain_throws))) = Some 2 \<and>
   m_pImmediateContext (snd (InitializeGraphicsEngine env_swapchain_throws videoMode_main
          RENDER_DEVICE_TYPE_D3D11 (initial_state env_swapchain_throws))) = Some 3 \<and>
   m_pSwapChain (snd (InitializeGraphicsEngine env_swapchain_throws videoMode_main
          RENDER_DEVICE_TYPE_D3D11 (initial_state env_swapchain_throws))) = None \<and>
   fst (main env_swapchain_throws []) = Exit (- 5) \<and>
   m_pDevice (snd (main env_swapchain_throws [])) = Some 2 \<and>
   m_pImmediateContext (snd (main env_swapchain_throws [])) = Some 3 \<and>
   m_pSwapChain (snd (main env_swapchain_throws [])) = None"
  by (simp add: InitializeGraphicsEngine_def env_swapchain_throws_def env0_def
      create_device_then_swapchain_def initial_state_def Let_def main_def)

text \<open>C1, amended: when the libraries keep their side, \<^verbatim>\<open>InitializeGraphicsEngine\<close>
  (both variants, every device kind, every starting state) either returns with device,
  context and swap chain all non-null, or raises; there is no third outcome. When it
  raises, the swap chain global is as before, and device and context are either
  untouched as well or both stored and non-null: the raise of the swap chain creation
  does not undo the device creation. A kind that the variant has no case for raises
  \<^verbatim>\<open>Unsupported render device type\<close> and leaves the state as it was.\<close>

theorem InitializeGraphicsEngine_outcomes:
  assumes "factories_populate e"
  shows "session_outcome s (InitializeGraphicsEngine e videoMode k s) \<and>
         session_outcome s (InitializeGraphicsEngine_tri e videoMode k s) \<and>
         (k \<notin> {RENDER_DEVICE_TYPE_D3D11, RENDER_DEVICE_TYPE_D3D12, RENDER_DEVICE_TYPE_VULKAN} \<longrightarrow>
            InitializeGraphicsEngine e videoMode k s =
              (Raised ''Unsupported render device type'', s)) \<and>
         (k \<notin> {RENDER_DEVICE_TYPE_D3D11, RENDER_DEVICE_TYPE_D3D12, RENDER_DEVICE_TYPE_GL,
                RENDER_DEVICE_TYPE_VULKAN} \<longrightarrow>
            InitializeGraphicsEngine_tri e videoMode k s =
              (Raised ''Unsupported render device type'', s))"
  using assms
  by (simp add: InitializeGraphicsEngine_def InitializeGraphicsEngine_tri_def Let_def
      factories_populate_def create_device_then_swapchain_outcome unsupported_kind_outcome
      create_GL_outcome)

theorem InitializeGraphicsEngine_outcomes_witness:
  "factories_populate env_swapchain_throws \<and>
   session_outcome (initial_state env_swapchain_throws)
     (InitializeGraphicsEngine env_swapchain_throws videoMode_main RENDER_DEVICE_TYPE_D3D11
        (initial_state env_swapchain_throws)) \<and>
   fst (InitializeGraphicsEngine_tri env_swapchain_throws videoMode_tri RENDER_DEVICE_TYPE_GL
        (initial_state env_swapchain_throws)) = Completed \<and>
   InitializeGraphicsEngine env_swapchain_throws videoMode_main RENDER_DEVICE_TYPE_GL
        (initial_state env_swapchain_throws) =
     (Raised ''Unsupported render device type'', initial_state env_swapchain_throws)"
proof -
  have h: "factories_populate env_swapchain_throws"
    by (simp add: factories_populate_def env_swapchain_throws_def env0_def populated1_def
        populated2_def populated3_def)
  have c: "fst (InitializeGraphicsEngine_tri env_swapchain_throws videoMode_tri
        RENDER_DEVICE_TYPE_GL (initial_state env_swapchain_throws)) = Completed"
    by (simp add: InitializeGraphicsEngine_tri_def env_swapchain_throws_def env0_def Let_def)
  show ?thesis
    using h c InitializeGraphicsEngine_outcomes [OF h, of "initial_state env_swapchain_throws"
        videoMode_main RENDER_DEVICE_TYPE_D3D11]
      InitializeGraphicsEngine_outcomes [OF h, of "initial_state env_swapchain_throws"
        videoMode_main RENDER_DEVICE_TYPE_GL]
    by simp
qed

subsection \<open>What resize, event handling and the render step change\<close>

lemma OnResize_Some:
  "OnResize e w h s = Some s' \<longleftrightarrow>
     (\<exists>sc. m_pSwapChain s = Some sc \<and>
        s' = s\<lparr> m_projMatrix := projection_for e (aspect_of e w h),
                m_pSwapChain := Some (resized_desc sc w h),
                gpu_log := gpu_log s @ [Resize w h] \<rparr>)"
  by (auto simp: OnResize_def ISwapChain_Resize_def ctx_call_def Let_def resized_desc_def
      projection_for_def aspect_of_def split: option.splits)

lemma render_Some:
  "render e videoMode ticks s = Some s' \<longleftrightarrow>
     (\<exists>sc ctx cb. m_pSwapChain s = Some sc \<and> m_pImmediateContext s = Some ctx \<and>
        m_pVSConstants s = Some cb \<and>
        s' = s\<lparr> m_modelMatrix := model_at e ticks,
                buffers := buffer_write cb (MatrixData (Transpose e (combined e ticks s))) (buffers s),
                gpu_log := gpu_log s @
                  [SetRenderTargets, ClearRenderTarget (ClearColor e),
                   ClearDepthStencil (float_lit e 1),
                   SetVertexBuffers (cubeVertexBuffer s), SetIndexBuffer (cubeIndexBuffer s),
                   SetPipelineState (m_pPSO s),
                   MapBuffer cb, WriteMapped cb (Transpose e (combined e ticks s)), UnmapBuffer cb,
                   CommitShaderResources (m_pSRB s),
                   DrawIndexed VT_UINT32 36
                     (visible_constants
                        (s\<lparr> buffers := buffer_write cb (MatrixData (Transpose e (combined e ticks s)))
                                          (buffers s) \<rparr>)),
                   Present (syncInterval videoMode)] \<rparr>)"
  by (auto simp: render_def ctx_call_def Let_def MapHelper_store_def DrawIndexed_call_def
      combined_def visible_constants_def split: option.splits)

lemma resizes_simps [simp]:
  "resizes [] = []"
  "resizes (SDL_QUIT # evs) = resizes evs"
  "resizes (SDL_OTHER_EVENT # evs) = resizes evs"
  "resizes (SDL_WINDOWEVENT SDL_WINDOWEVENT_OTHER # evs) = resizes evs"
  "resizes (SDL_WINDOWEVENT (SDL_WINDOWEVENT_RESIZED w h) # evs) = (w, h) # resizes evs"
  "resizes (SDL_WINDOWEVENT (SDL_WINDOWEVENT_SIZE_CHANGED w h) # evs) = (w, h) # resizes evs"
  by (simp_all add: resizes_def List.map_filter_simps)

lemma handle_event_close:
  "handle_event e ev s = Some s' \<Longrightarrow>
   m_windowShouldClose s' = (m_windowShouldClose s \<or> ev = SDL_QUIT)"
  by (induction e ev s rule: handle_event.induct) (auto simp: OnResize_Some)

lemma poll_events_close:
  "poll_events e evs s = Some s' \<Longrightarrow>
   m_windowShouldClose s' = (m_windowShouldClose s \<or> SDL_QUIT \<in> set evs)"
proof (induction evs arbitrary: s)
  case Nil
  then show ?case by simp
next
  case (Cons ev evs)
  then obtain s1 where h: "handle_event e ev s = Some s1" and p: "poll_events e evs s1 = Some s'"
    by (auto split: option.splits)
  from Cons.IH [OF p] handle_event_close [OF h] show ?case by auto
qed

lemma handle_event_log:
  "handle_event e ev s = Some s' \<Longrightarrow>
   gpu_log s' = gpu_log s @ map (\<lambda>(w, h). Resize w h) (resizes [ev])"
  by (induction e ev s rule: handle_event.induct) (auto simp: OnResize_Some)

lemma resizes_Cons: "resizes (ev # evs) = resizes [ev] @ resizes evs"
  by (simp add: resizes_def List.map_filter_def)

lemma poll_events_log:
  "poll_events e evs s = Some s' \<Longrightarrow>
   gpu_log s' = gpu_log s @ map (\<lambda>(w, h). Resize w h) (resizes evs)"
proof (induction evs arbitrary: s)
  case Nil
  then show ?case by simp
next
  case (Cons ev evs)
  then obtain s1 where h: "handle_event e ev s = Some s1" and p: "poll_events e evs s1 = Some s'"
    by (auto split: option.splits)
  from Cons.IH [OF p] handle_event_log [OF h] show ?case
    by (subst resizes_Cons) simp
qed

lemma handle_event_ready:
  "loop_ready s \<Longrightarrow> \<exists>s'. handle_event e ev s = Some s' \<and> loop_ready s'"
  by (induction e ev s rule: handle_event.induct) (auto simp: OnResize_Some loop_ready_def)

lemma poll_events_ready:
  "loop_ready s \<Longrightarrow> \<exists>s'. poll_events e evs s = Some s' \<and> loop_ready s'"
proof (induction evs arbitrary: s)
  case Nil
  then show ?case by simp
next
  case (Cons ev evs)
  from handle_event_ready [OF Cons.prems] obtain s1
    where h: "handle_event e ev s = Some s1" and r: "loop_ready s1" by blast
  from Cons.IH [OF r] h show ?case by simp
qed

lemma render_ready:
  "loop_ready s \<Longrightarrow> \<exists>s'. render e videoMode ticks s = Some s' \<and> loop_ready s'"
  by (auto simp: render_Some loop_ready_def)

lemma frame_ready:
  "loop_ready s \<Longrightarrow> \<exists>s'. frame e videoMode inp s = Some s' \<and> loop_ready s'"
proof -
  assume r: "loop_ready s"
  from poll_events_ready [OF r] obtain s1
    where p: "poll_events e (snd inp) s = Some s1" and r1: "loop_ready s1" by blast
  from render_ready [OF r1] p show ?thesis by (simp add: frame_def)
qed

lemma render_close:
  "render e videoMode ticks s = Some s' \<Longrightarrow> m_windowShouldClose s' = m_windowShouldClose s"
  by (auto simp: render_Some)

lemma frame_close:
  "frame e videoMode inp s = Some s' \<Longrightarrow>
   m_windowShouldClose s' = (m_windowShouldClose s \<or> SDL_QUIT \<in> set (snd inp))"
  by (auto simp: frame_def split: option.splits dest: poll_events_close render_close)

lemma render_presents:
  "render e videoMode ticks s = Some s' \<Longrightarrow>
   length (filter is_present (gpu_log s')) = Suc (length (filter is_present (gpu_log s))) \<and>
   length (filter is_draw (gpu_log s')) = Suc (length (filter is_draw (gpu_log s)))"
  by (auto simp: render_Some)

lemma poll_events_presents:
  "poll_events e evs s = Some s' \<Longrightarrow>
   filter is_present (gpu_log s') = filter is_present (gpu_log s) \<and>
   filter is_draw (gpu_log s') = filter is_draw (gpu_log s)"
  by (auto simp: filter_empty_conv dest!: poll_events_log)

lemma frame_presents:
  "frame e videoMode inp s = Some s' \<Longrightarrow>
   length (filter is_present (gpu_log s')) = Suc (length (filter is_present (gpu_log s))) \<and>
   length (filter is_draw (gpu_log s')) = Suc (length (filter is_draw (gpu_log s)))"
  by (auto simp: frame_def split: option.splits dest!: poll_events_presents render_presents)

lemma frame_counts:
  "frame e videoMode inp s = Some s' \<Longrightarrow>
   presents s' = Suc (presents s) \<and> draws s' = Suc (draws s)"
  by (simp add: presents_def draws_def frame_presents)

subsection \<open>The frame loop of the cube variant\<close>

lemma main_loop_append:
  "main_loop e videoMode pre s = StillRunning s1 \<Longrightarrow>
   main_loop e videoMode (pre @ post) s = main_loop e videoMode post s1"
  by (induction pre arbitrary: s) (auto split: option.splits if_splits)

lemma main_loop_running:
  "loop_ready s \<Longrightarrow> \<not> m_windowShouldClose s \<Longrightarrow>
   \<forall>i \<in> set pre. SDL_QUIT \<notin> set (snd i) \<Longrightarrow>
   \<exists>s1. main_loop e videoMode pre s = StillRunning s1 \<and> loop_ready s1 \<and>
        \<not> m_windowShouldClose s1 \<and>
        presents s1 = presents s + length pre \<and> draws s1 = draws s + length pre"
proof (induction pre arbitrary: s)
  case Nil
  then show ?case by simp
next
  case (Cons inp pre)
  from frame_ready [OF Cons.prems(1)] obtain s'
    where f: "frame e videoMode inp s = Some s'" and r: "loop_ready s'" by blast
  from frame_close [OF f] Cons.prems have c: "\<not> m_windowShouldClose s'" by simp
  from Cons.prems have q: "\<forall>i \<in> set pre. SDL_QUIT \<notin> set (snd i)" by simp
  from Cons.IH [OF r c q] obtain s1 where
    "main_loop e videoMode pre s' = StillRunning s1" "loop_ready s1"
    "\<not> m_windowShouldClose s1" "presents s1 = presents s' + length pre"
    "draws s1 = draws s' + length pre" by blast
  with f c frame_counts [OF f] show ?case by simp
qed

lemma main_loop_quit:
  "loop_ready s \<Longrightarrow> SDL_QUIT \<in> set (snd inp) \<Longrightarrow>
   \<exists>s'. main_loop e videoMode (inp # rest) s = Exited s' \<and>
        frame e videoMode inp s = Some s' \<and>
        presents s' = Suc (presents s) \<and> draws s' = Suc (draws s)"
proof -
  assume r: "loop_ready s" and q: "SDL_QUIT \<in> set (snd inp)"
  from frame_ready [OF r] obtain s' where f: "frame e videoMode inp s = Some s'" by blast
  from frame_close [OF f] q have "m_windowShouldClose s'" by simp
  with f frame_counts [OF f] show ?thesis by simp
qed

lemma main_nil:
  "main e [] = (Running, s3) \<Longrightarrow>
   main e inps =
     (case main_loop e videoMode_main inps s3 of
        Exited s4 \<Rightarrow> (Exit 0, s4)
      | NullDeref \<Rightarrow> (Crash, s3)
      | StillRunning s4 \<Rightarrow> (Running, s4))"
  by (auto simp: main_def Let_def split: if_splits prod.splits init_result.splits option.splits)

lemma main_started:
  "fst (main e []) = Running \<Longrightarrow>
   main e inps =
     (case main_loop e videoMode_main inps (snd (main e [])) of
        Exited s4 \<Rightarrow> (Exit 0, s4)
      | NullDeref \<Rightarrow> (Crash, snd (main e []))
      | StillRunning s4 \<Rightarrow> (Running, s4))"
  using main_nil [of e "snd (main e [])" inps] by (metis prod.collapse)

lemma init_keeps_log:
  "gpu_log (snd (InitializeGraphicsEngine e videoMode k s)) = gpu_log s \<and>
   m_windowShouldClose (snd (InitializeGraphicsEngine e videoMode k s)) = m_windowShouldClose s \<and>
   gpu_log (snd (InitializeGraphicsEngine_tri e videoMode k s)) = gpu_log s \<and>
   m_windowShouldClose (snd (InitializeGraphicsEngine_tri e videoMode k s)) = m_windowShouldClose s"
  by (auto simp: InitializeGraphicsEngine_def InitializeGraphicsEngine_tri_def Let_def
      create_device_then_swapchain_def split: call.splits)

lemma init_resources_keeps_log:
  "init_resources e s = Some s' \<Longrightarrow>
   gpu_log s' = gpu_log s \<and> m_windowShouldClose s' = m_windowShouldClose s"
  by (auto simp: init_resources_def Let_def split: option.splits if_splits)

lemma main_entry:
  "fst (main e []) = Running \<Longrightarrow>
   gpu_log (snd (main e [])) = [] \<and> \<not> m_windowShouldClose (snd (main e []))"
  using init_keeps_log [of e videoMode_main RENDER_DEVICE_TYPE_D3D11
      "(initial_state e)\<lparr> m_mainWindow := SDL_CreateWindow e \<rparr>"]
  by (auto simp: main_def Let_def initial_state_def
      split: if_splits prod.splits init_result.splits option.splits
      dest!: init_resources_keeps_log)

subsection \<open>The triangle variant\<close>

lemma poll_events_tri_state:
  "fst (poll_events_tri evs s) =
     (if SDL_QUIT \<in> set evs then s\<lparr> m_windowShouldClose := True \<rparr> else s)"
  by (induction evs) auto

lemma poll_events_tri_rest:
  "snd (poll_events_tri evs s) = tl (dropWhile (\<lambda>ev. ev \<noteq> SDL_QUIT) evs)"
  by (induction evs) auto

lemma render_tri_Some:
  "render_tri e s = Some s' \<longleftrightarrow>
     (\<exists>sc ctx. m_pSwapChain s = Some sc \<and> m_pImmediateContext s = Some ctx \<and>
        s' = s\<lparr> gpu_log := gpu_log s @
                  [SetRenderTargets, ClearRenderTarget (ClearColor e),
                   ClearDepthStencil (float_lit e 1), SetPipelineState (m_pPSO s),
                   Draw 3, Present 1] \<rparr>)"
  by (auto simp: render_tri_def ctx_call_def Let_def split: option.splits)

lemma frame_tri_ready:
  "loop_ready_tri s \<Longrightarrow> \<exists>s'. frame_tri e evs s = Some s' \<and> loop_ready_tri s'"
  by (auto simp: frame_tri_def poll_events_tri_state render_tri_Some loop_ready_tri_def)

lemma frame_tri_close:
  "frame_tri e evs s = Some s' \<Longrightarrow>
   m_windowShouldClose s' = (m_windowShouldClose s \<or> SDL_QUIT \<in> set evs)"
  by (auto simp: frame_tri_def poll_events_tri_state render_tri_Some split: if_splits)

lemma frame_tri_counts:
  "frame_tri e evs s = Some s' \<Longrightarrow>
   presents s' = Suc (presents s) \<and> draws s' = Suc (draws s)"
  by (auto simp: frame_tri_def poll_events_tri_state render_tri_Some presents_def draws_def
      split: if_splits)

lemma main_loop_tri_append:
  "main_loop_tri e pre s = StillRunning s1 \<Longrightarrow>
   main_loop_tri e (pre @ post) s = main_loop_tri e post s1"
  by (induction pre arbitrary: s) (auto split: option.splits if_splits)

lemma main_loop_tri_running:
  "loop_ready_tri s \<Longrightarrow> \<not> m_windowShouldClose s \<Longrightarrow>
   \<forall>evs \<in> set pre. SDL_QUIT \<notin> set evs \<Longrightarrow>
   \<exists>s1. main_loop_tri e pre s = StillRunning s1 \<and> loop_ready_tri s1 \<and>
        \<not> m_windowShouldClose s1 \<and>
        presents s1 = presents s + length pre \<and> draws s1 = draws s + length pre"
proof (induction pre arbitrary: s)
  case Nil
  then show ?case by simp
next
  case (Cons evs pre)
  from frame_tri_ready [OF Cons.prems(1)] obtain s'
    where f: "frame_tri e evs s = Some s'" and r: "loop_ready_tri s'" by blast
  from frame_tri_close [OF f] Cons.prems have c: "\<not> m_windowShouldClose s'" by simp
  from Cons.prems have q: "\<forall>evs \<in> set pre. SDL_QUIT \<notin> set evs" by simp
  from Cons.IH [OF r c q] obtain s1 where
    "main_loop_tri e pre s' = StillRunning s1" "loop_ready_tri s1"
    "\<not> m_windowShouldClose s1" "presents s1 = presents s' + length pre"
    "draws s1 = draws s' + length pre" by blast
  with f c frame_tri_counts [OF f] show ?case by simp
qed

lemma main_loop_tri_quit:
  "loop_ready_tri s \<Longrightarrow> SDL_QUIT \<in> set evs \<Longrightarrow>
   \<exists>s'. main_loop_tri e (evs # rest) s = Exited s' \<and>
        frame_tri e evs s = Some s' \<and>
        presents s' = Suc (presents s) \<and> draws s' = Suc (draws s)"
proof -
  assume r: "loop_ready_tri s" and q: "SDL_QUIT \<in> set evs"
  from frame_tri_ready [OF r] obtain s' where f: "frame_tri e evs s = Some s'" by blast
  from frame_tri_close [OF f] q have "m_windowShouldClose s'" by simp
  with f frame_tri_counts [OF f] show ?thesis by simp
qed

lemma main_tri_nil:
  "main_tri e [] = (Running, s3) \<Longrightarrow>
   main_tri e inps =
     (case main_loop_tri e inps s3 of
        Exited s4 \<Rightarrow> (Exit 0, s4)
      | NullDeref \<Rightarrow> (Crash, s3)
      | StillRunning s4 \<Rightarrow> (Running, s4))"
  by (auto simp: main_tri_def Let_def split: if_splits prod.splits init_result.splits option.splits)

lemma main_tri_started:
  "fst (main_tri e []) = Running \<Longrightarrow>
   main_tri e inps =
     (case main_loop_tri e inps (snd (main_tri e [])) of
        Exited s4 \<Rightarrow> (Exit 0, s4)
      | NullDeref \<Rightarrow> (Crash, snd (main_tri e []))
      | StillRunning s4 \<Rightarrow> (Running, s4))"
  using main_tri_nil [of e "snd (main_tri e [])" inps] by (metis prod.collapse)

lemma init_resources_tri_keeps_log:
  "init_resources_tri e s = Some s' \<Longrightarrow>
   gpu_log s' = gpu_log s \<and> m_windowShouldClose s' = m_windowShouldClose s"
  by (auto simp: init_resources_tri_def split: option.splits)

lemma main_tri_entry:
  "fst (main_tri e []) = Running \<Longrightarrow>
   gpu_log (snd (main_tri e [])) = [] \<and> \<not> m_windowShouldClose (snd (main_tri e []))"
  using init_keeps_log [of e videoMode_tri RENDER_DEVICE_TYPE_GL
      "(initial_state e)\<lparr> m_mainWindow := SDL_CreateWindow e \<rparr>"]
  by (auto simp: main_tri_def Let_def initial_state_def
      split: if_splits prod.splits init_result.splits option.splits
      dest!: init_resources_tri_keeps_log)

subsection \<open>Leaving the loop\<close>

lemma main_quit:
  assumes started: "fst (main e []) = Running" and ready: "loop_ready (snd (main e []))"
    and noquit: "\<forall>i \<in> set pre. SDL_QUIT \<notin> set (snd i)" and quit: "SDL_QUIT \<in> set (snd inp)"
  shows "fst (main e (pre @ inp # rest)) = Exit 0 \<and>
         presents (snd (main e (pre @ inp # rest))) = length pre + 1 \<and>
         draws (snd (main e (pre @ inp # rest))) = length pre + 1"
proof -
  let ?s0 = "snd (main e [])"
  from main_entry [OF started] have c0: "\<not> m_windowShouldClose ?s0"
    and p0: "presents ?s0 = 0" and d0: "draws ?s0 = 0"
    by (simp_all add: presents_def draws_def)
  from main_loop_running [OF ready c0 noquit, of e videoMode_main] obtain s1 where
    run: "main_loop e videoMode_main pre ?s0 = StillRunning s1" and r1: "loop_ready s1"
    and p1: "presents s1 = presents ?s0 + length pre" and d1: "draws s1 = draws ?s0 + length pre"
    by blast
  from main_loop_quit [OF r1 quit, of e videoMode_main rest] obtain s' where
    ex: "main_loop e videoMode_main (inp # rest) s1 = Exited s'"
    and p': "presents s' = Suc (presents s1)" and d': "draws s' = Suc (draws s1)"
    by blast
  from main_loop_append [OF run, of "inp # rest"] ex
  have "main_loop e videoMode_main (pre @ inp # rest) ?s0 = Exited s'" by simp
  with main_started [OF started, of "pre @ inp # rest"]
  have "main e (pre @ inp # rest) = (Exit 0, s')" by simp
  with p0 d0 p1 d1 p' d' show ?thesis by simp
qed

lemma main_tri_quit:
  assumes started: "fst (main_tri e []) = Running" and ready: "loop_ready_tri (snd (main_tri e []))"
    and noquit: "\<forall>evs \<in> set pre. SDL_QUIT \<notin> set evs" and quit: "SDL_QUIT \<in> set evs"
  shows "fst (main_tri e (pre @ evs # rest)) = Exit 0 \<and>
         presents (snd (main_tri e (pre @ evs # rest))) = length pre + 1 \<and>
         draws (snd (main_tri e (pre @ evs # rest))) = length pre + 1"
proof -
  let ?s0 = "snd (main_tri e [])"
  from main_tri_entry [OF started] have c0: "\<not> m_windowShouldClose ?s0"
    and p0: "presents ?s0 = 0" and d0: "draws ?s0 = 0"
    by (simp_all add: presents_def draws_def)
  from main_loop_tri_running [OF ready c0 noquit, of e] obtain s1 where
    run: "main_loop_tri e pre ?s0 = StillRunning s1" and r1: "loop_ready_tri s1"
    and p1: "presents s1 = presents ?s0 + length pre" and d1: "draws s1 = draws ?s0 + length pre"
    by blast
  from main_loop_tri_quit [OF r1 quit, of e rest] obtain s' where
    ex: "main_loop_tri e (evs # rest) s1 = Exited s'"
    and p': "presents s' = Suc (presents s1)" and d': "draws s' = Suc (draws s1)"
    by blast
  from main_loop_tri_append [OF run, of "evs # rest"] ex
  have "main_loop_tri e (pre @ evs # rest) ?s0 = Exited s'" by simp
  with main_tri_started [OF started, of "pre @ evs # rest"]
  have "main_tri e (pre @ evs # rest) = (Exit 0, s')" by simp
  with p0 d0 p1 d1 p' d' show ?thesis by simp
qed

text \<open>C2: once an iteration has polled a quit event, that iteration still renders and
  presents, the loop then ends and \<^verbatim>\<open>main\<close> returns 0. In both variants: when the
  process has entered its frame loop with the pointers the loop dereferences non-null, no
  iteration of \<open>pre\<close> polls a quit event and the next iteration does, the status is 0
  whatever inputs follow (they are never consumed), and the run has drawn and presented
  exactly one frame for each iteration, the one that polled the quit event included. The
  close flag is read by the loop condition only: the render step runs in full after the
  flag has been set.\<close>

theorem quit_ends_loop_after_current_frame:
  "(fst (main e []) = Running \<longrightarrow> loop_ready (snd (main e [])) \<longrightarrow>
    (\<forall>i \<in> set pre. SDL_QUIT \<notin> set (snd i)) \<longrightarrow> SDL_QUIT \<in> set (snd inp) \<longrightarrow>
      fst (main e (pre @ inp # rest)) = Exit 0 \<and>
      presents (snd (main e (pre @ inp # rest))) = length pre + 1 \<and>
      draws (snd (main e (pre @ inp # rest))) = length pre + 1) \<and>
   (fst (main_tri e []) = Running \<longrightarrow> loop_ready_tri (snd (main_tri e [])) \<longrightarrow>
    (\<forall>evs \<in> set pre_tri. SDL_QUIT \<notin> set evs) \<longrightarrow> SDL_QUIT \<in> set evs \<longrightarrow>
      fst (main_tri e (pre_tri @ evs # rest_tri)) = Exit 0 \<and>
      presents (snd (main_tri e (pre_tri @ evs # rest_tri))) = length pre_tri + 1 \<and>
      draws (snd (main_tri e (pre_tri @ evs # rest_tri))) = length pre_tri + 1)"
  using main_quit [of e pre inp rest] main_tri_quit [of e pre_tri evs rest_tri] by blast

lemma env0_started:
  "fst (main env0 []) = Running \<and> loop_ready (snd (main env0 [])) \<and>
   fst (main_tri env0 []) = Running \<and> loop_ready_tri (snd (main_tri env0 []))"
  by (simp add: main_def main_tri_def env0_def Let_def initial_state_def
      InitializeGraphicsEngine_def InitializeGraphicsEngine_tri_def
      create_device_then_swapchain_def new_SwapChain_def make_SCDesc_def
      init_resources_def init_resources_tri_def create_buffer_def loop_ready_def
      loop_ready_tri_def)

theorem quit_ends_loop_after_current_frame_witness:
  "fst (main env0 ([(0, [])] @ (16, [SDL_OTHER_EVENT, SDL_QUIT]) # [(32, [])])) = Exit 0 \<and>
   presents (snd (main env0 ([(0, [])] @ (16, [SDL_OTHER_EVENT, SDL_QUIT]) # [(32, [])]))) = 2 \<and>
   draws (snd (main env0 ([(0, [])] @ (16, [SDL_OTHER_EVENT, SDL_QUIT]) # [(32, [])]))) = 2 \<and>
   fst (main_tri env0 ([[]] @ [SDL_QUIT, SDL_OTHER_EVENT] # [[]])) = Exit 0 \<and>
   presents (snd (main_tri env0 ([[]] @ [SDL_QUIT, SDL_OTHER_EVENT] # [[]]))) = 2 \<and>
   draws (snd (main_tri env0 ([[]] @ [SDL_QUIT, SDL_OTHER_EVENT] # [[]]))) = 2"
  using quit_ends_loop_after_current_frame
    [of env0 "[(0, [])]" "(16, [SDL_OTHER_EVENT, SDL_QUIT])" "[(32, [])]"
        "[[]]" "[SDL_QUIT, SDL_OTHER_EVENT]" "[[]]"]
    env0_started
  by simp

subsection \<open>Exit status\<close>

lemma main_startup_failure:
  "failure_code (startup_of e) = Some c \<Longrightarrow> fst (main e inps) = Exit c"
  by (auto simp: startup_of_def main_def Let_def
      split: if_splits prod.splits init_result.splits option.splits)

lemma main_tri_startup_failure:
  "failure_code (startup_of_tri e) = Some c \<Longrightarrow> fst (main_tri e inps) = Exit c"
  by (auto simp: startup_of_tri_def main_tri_def Let_def
      split: if_splits prod.splits init_result.splits option.splits)

lemma failure_code_negative: "failure_code st = Some c \<Longrightarrow> c < 0"
  by (cases st) auto

lemma failure_code_inj:
  "failure_code st = Some c \<Longrightarrow> failure_code st' = Some c \<Longrightarrow> st = st'"
  by (cases st; cases st') auto

lemma main_loop_Exited:
  "main_loop e videoMode inps s = Exited s' \<Longrightarrow> \<not> m_windowShouldClose s \<Longrightarrow>
   m_windowShouldClose s' \<and> (\<exists>i \<in> set inps. SDL_QUIT \<in> set (snd i))"
proof (induction inps arbitrary: s)
  case Nil
  then show ?case by simp
next
  case (Cons inp inps)
  then obtain s1 where f: "frame e videoMode inp s = Some s1"
    by (auto split: option.splits)
  show ?case
  proof (cases "m_windowShouldClose s1")
    case True
    with f Cons.prems frame_close [OF f] show ?thesis by auto
  next
    case False
    with f Cons.prems have "main_loop e videoMode inps s1 = Exited s'" by simp
    from Cons.IH [OF this False] show ?thesis by auto
  qed
qed

lemma main_loop_tri_Exited:
  "main_loop_tri e inps s = Exited s' \<Longrightarrow> \<not> m_windowShouldClose s \<Longrightarrow>
   m_windowShouldClose s' \<and> (\<exists>evs \<in> set inps. SDL_QUIT \<in> set evs)"
proof (induction inps arbitrary: s)
  case Nil
  then show ?case by simp
next
  case (Cons evs inps)
  then obtain s1 where f: "frame_tri e evs s = Some s1"
    by (auto split: option.splits)
  show ?case
  proof (cases "m_windowShouldClose s1")
    case True
    with f Cons.prems frame_tri_close [OF f] show ?thesis by auto
  next
    case False
    with f Cons.prems have "main_loop_tri e inps s1 = Exited s'" by simp
    from Cons.IH [OF this False] show ?thesis by auto
  qed
qed

lemma main_Exit_cases:
  "fst (main e inps) = Exit c \<Longrightarrow>
   failure_code (startup_of e) = Some c \<or>
   (c = 0 \<and> fst (main e []) = Running \<and>
    (\<exists>s'. main_loop e videoMode_main inps (snd (main e [])) = Exited s'))"
  by (auto simp: startup_of_def main_def Let_def
      split: if_splits prod.splits init_result.splits option.splits loop_result.splits)

lemma main_tri_Exit_cases:
  "fst (main_tri e inps) = Exit c \<Longrightarrow>
   failure_code (startup_of_tri e) = Some c \<or>
   (c = 0 \<and> fst (main_tri e []) = Running \<and>
    (\<exists>s'. main_loop_tri e inps (snd (main_tri e [])) = Exited s'))"
  by (auto simp: startup_of_tri_def main_tri_def Let_def
      split: if_splits prod.splits init_result.splits option.splits loop_result.splits)

lemma main_Exit_0:
  "fst (main e inps) = Exit 0 \<Longrightarrow> \<exists>i \<in> set inps. SDL_QUIT \<in> set (snd i)"
proof -
  assume a: "fst (main e inps) = Exit 0"
  from main_Exit_cases [OF a] failure_code_negative [of "startup_of e" 0]
  obtain s' where st: "fst (main e []) = Running"
    and ex: "main_loop e videoMode_main inps (snd (main e [])) = Exited s'" by auto
  from main_loop_Exited [OF ex] main_entry [OF st] show ?thesis by simp
qed

lemma main_tri_Exit_0:
  "fst (main_tri e inps) = Exit 0 \<Longrightarrow> \<exists>evs \<in> set inps. SDL_QUIT \<in> set evs"
proof -
  assume a: "fst (main_tri e inps) = Exit 0"
  from main_tri_Exit_cases [OF a] failure_code_negative [of "startup_of_tri e" 0]
  obtain s' where st: "fst (main_tri e []) = Running"
    and ex: "main_loop_tri e inps (snd (main_tri e [])) = Exited s'" by auto
  from main_loop_tri_Exited [OF ex] main_tri_entry [OF st] show ?thesis by simp
qed

lemma main_quit_any:
  assumes started: "fst (main e []) = Running" and ready: "loop_ready (snd (main e []))"
    and quit: "\<exists>i \<in> set inps. SDL_QUIT \<in> set (snd i)"
  shows "fst (main e inps) = Exit 0"
proof -
  from quit obtain pre inp rest where "inps = pre @ inp # rest" "SDL_QUIT \<in> set (snd inp)"
    "\<forall>i \<in> set pre. SDL_QUIT \<notin> set (snd i)"
    using split_list_first_prop [of inps "\<lambda>i. SDL_QUIT \<in> set (snd i)"] by blast
  with main_quit [OF started ready, of pre inp rest] show ?thesis by simp
qed

lemma main_tri_quit_any:
  assumes started: "fst (main_tri e []) = Running" and ready: "loop_ready_tri (snd (main_tri e []))"
    and quit: "\<exists>evs \<in> set inps. SDL_QUIT \<in> set evs"
  shows "fst (main_tri e inps) = Exit 0"
proof -
  from quit obtain pre evs rest where "inps = pre @ evs # rest" "SDL_QUIT \<in> set evs"
    "\<forall>evs \<in> set pre. SDL_QUIT \<notin> set evs"
    using split_list_first_prop [of inps "\<lambda>evs. SDL_QUIT \<in> set evs"] by blast
  with main_tri_quit [OF started ready, of pre evs rest] show ?thesis by simp
qed

lemma main_statuses:
  "(startup_of e = SubsystemInitFailure \<longrightarrow> fst (main e inps) = Exit (- 1)) \<and>
   (startup_of e = WindowCreationFailure \<longrightarrow> fst (main e inps) = Exit (- 3)) \<and>
   (startup_of e = BackendInitRaised \<longrightarrow> fst (main e inps) = Exit (- 5)) \<and>
   (fst (main e inps) = Exit 0 \<longrightarrow> (\<exists>i \<in> set inps. SDL_QUIT \<in> set (snd i))) \<and>
   (fst (main e []) = Running \<longrightarrow> loop_ready (snd (main e [])) \<longrightarrow>
      (\<exists>i \<in> set inps. SDL_QUIT \<in> set (snd i)) \<longrightarrow> fst (main e inps) = Exit 0)"
  using main_startup_failure [of e _ inps] main_Exit_0 [of e inps] main_quit_any [of e inps]
  by auto

lemma main_tri_statuses:
  "(startup_of_tri e = SubsystemInitFailure \<longrightarrow> fst (main_tri e inps) = Exit (- 1)) \<and>
   (startup_of_tri e = WindowCreationFailure \<longrightarrow> fst (main_tri e inps) = Exit (- 3)) \<and>
   (startup_of_tri e = BackendInitRaised \<longrightarrow> fst (main_tri e inps) = Exit (- 5)) \<and>
   (fst (main_tri e inps) = Exit 0 \<longrightarrow> (\<exists>evs \<in> set inps. SDL_QUIT \<in> set evs)) \<and>
   (fst (main_tri e []) = Running \<longrightarrow> loop_ready_tri (snd (main_tri e [])) \<longrightarrow>
      (\<exists>evs \<in> set inps. SDL_QUIT \<in> set evs) \<longrightarrow> fst (main_tri e inps) = Exit 0)"
  using main_tri_startup_failure [of e _ inps] main_tri_Exit_0 [of e inps]
    main_tri_quit_any [of e inps]
  by auto

lemma main_failures_distinct:
  "failure_code (startup_of e) = Some c \<Longrightarrow> failure_code (startup_of e') = Some c' \<Longrightarrow>
   startup_of e \<noteq> startup_of e' \<Longrightarrow>
   fst (main e inps) \<noteq> fst (main e' inps') \<and> c < 0 \<and> c' < 0"
  using main_startup_failure [of e c inps] main_startup_failure [of e' c' inps']
    failure_code_negative [of "startup_of e" c] failure_code_negative [of "startup_of e'" c']
    failure_code_inj [of "startup_of e" c "startup_of e'"]
  by auto

lemma main_tri_failures_distinct:
  "failure_code (startup_of_tri e) = Some c \<Longrightarrow> failure_code (startup_of_tri e') = Some c' \<Longrightarrow>
   startup_of_tri e \<noteq> startup_of_tri e' \<Longrightarrow>
   fst (main_tri e inps) \<noteq> fst (main_tri e' inps') \<and> c < 0 \<and> c' < 0"
  using main_tri_startup_failure [of e c inps] main_tri_startup_failure [of e' c' inps']
    failure_code_negative [of "startup_of_tri e" c]
    failure_code_negative [of "startup_of_tri e'" c']
    failure_code_inj [of "startup_of_tri e" c "startup_of_tri e'"]
  by auto

lemma main_loader_null:
  "startup_of e = BackendLoaderNull \<Longrightarrow> fst (main e inps) = Crash"
  by (auto simp: startup_of_def main_def Let_def
      split: if_splits prod.splits init_result.splits option.splits)

lemma main_null_session:
  "startup_of e = BackendInitReturned \<Longrightarrow>
   m_pSwapChain (backend_session e) = None \<or> m_pDevice (backend_session e) = None \<Longrightarrow>
   fst (main e inps) = Crash"
  by (auto simp: startup_of_def backend_session_def main_def Let_def init_resources_def
      split: if_splits prod.splits init_result.splits option.splits)

lemma main_tri_null_session:
  "startup_of_tri e = BackendInitReturned \<Longrightarrow>
   m_pSwapChain (backend_session_tri e) = None \<or> m_pDevice (backend_session_tri e) = None \<Longrightarrow>
   fst (main_tri e inps) = Crash"
  by (auto simp: startup_of_tri_def backend_session_tri_def main_tri_def Let_def
      init_resources_tri_def
      split: if_splits prod.splits init_result.splits option.splits)

lemma main_Exit_values:
  "fst (main e inps) = Exit c \<Longrightarrow> c = - 1 \<or> c = - 3 \<or> c = - 5 \<or> c = 0"
  by (auto simp: main_def Let_def
      split: if_splits prod.splits init_result.splits option.splits loop_result.splits)

lemma main_tri_Exit_values:
  "fst (main_tri e inps) = Exit c \<Longrightarrow> c = - 1 \<or> c = - 3 \<or> c = - 5 \<or> c = 0"
  by (auto simp: main_tri_def Let_def
      split: if_splits prod.splits init_result.splits option.splits loop_result.splits)

text \<open>C9, as stated, fails: a failure of the graphics backend has an exit status only
  when it is raised as an exception. When the factory calls return and leave device,
  context and swap chain null, \<^verbatim>\<open>InitializeGraphicsEngine\<close> returns normally, nothing is
  caught, and \<^verbatim>\<open>main\<close> dereferences the null swap chain at line 236: the run ends without
  a status, whatever events are queued. The same holds when the D3D11 entry point does
  not load (line 135 calls the null pointer), and in the triangle variant.\<close>

theorem backend_failure_without_status:
  "startup_of env_null_outputs = BackendInitReturned \<and>
   m_pDevice (backend_session env_null_outputs) = None \<and>
   m_pImmediateContext (backend_session env_null_outputs) = None \<and>
   m_pSwapChain (backend_session env_null_outputs) = None \<and>
   fst (main env_null_outputs []) = Crash \<and>
   fst (main env_null_outputs [(0, [SDL_QUIT])]) = Crash \<and>
   startup_of env_no_loader = BackendLoaderNull \<and>
   fst (main env_no_loader [(0, [SDL_QUIT])]) = Crash \<and>
   m_pSwapChain (backend_session_tri env_null_outputs) = None \<and>
   fst (main_tri env_null_outputs [[SDL_QUIT]]) = Crash"
  by (simp add: startup_of_def backend_session_def backend_session_tri_def main_def
      main_tri_def env_null_outputs_def env_no_loader_def env0_def Let_def initial_state_def
      InitializeGraphicsEngine_def InitializeGraphicsEngine_tri_def
      create_device_then_swapchain_def new_SwapChain_def init_resources_def
      init_resources_tri_def)

text \<open>C9, amended: in both variants a failure of \<^verbatim>\<open>SDL_Init\<close> returns -1, a failure to
  create the window returns -3, and a failure of the graphics backend that
  \<^verbatim>\<open>InitializeGraphicsEngine\<close> raises as an exception returns -5; the three statuses are
  negative, and two runs that fail at different ones of these steps return different
  statuses. Status 0 belongs to the shutdown through a quit event: a run that returns 0
  has polled a quit event, and a run that has entered its loop and polls a quit event
  returns 0. These four are the only statuses. A failure of the backend that raises
  nothing has none: when the factory entry point is null, or the call returns and has
  left the swap chain or the device null, \<^verbatim>\<open>main\<close> goes on to call or dereference the null
  pointer.\<close>

theorem exit_codes:
  "(startup_of e = SubsystemInitFailure \<longrightarrow> fst (main e inps) = Exit (- 1)) \<and>
   (startup_of e = WindowCreationFailure \<longrightarrow> fst (main e inps) = Exit (- 3)) \<and>
   (startup_of e = BackendInitRaised \<longrightarrow> fst (main e inps) = Exit (- 5)) \<and>
   (fst (main e inps) = Exit 0 \<longrightarrow> (\<exists>i \<in> set inps. SDL_QUIT \<in> set (snd i))) \<and>
   (fst (main e []) = Running \<longrightarrow> loop_ready (snd (main e [])) \<longrightarrow>
      (\<exists>i \<in> set inps. SDL_QUIT \<in> set (snd i)) \<longrightarrow> fst (main e inps) = Exit 0) \<and>
   (failure_code (startup_of e) = Some c \<longrightarrow> failure_code (startup_of e') = Some c' \<longrightarrow>
      startup_of e \<noteq> startup_of e' \<longrightarrow>
      fst (main e inps) \<noteq> fst (main e' inps') \<and> c < 0 \<and> c' < 0) \<and>
   (startup_of_tri e = SubsystemInitFailure \<longrightarrow> fst (main_tri e inps_tri) = Exit (- 1)) \<and>
   (startup_of_tri e = WindowCreationFailure \<longrightarrow> fst (main_tri e inps_tri) = Exit (- 3)) \<and>
   (startup_of_tri e = BackendInitRaised \<longrightarrow> fst (main_tri e inps_tri) = Exit (- 5)) \<and>
   (fst (main_tri e inps_tri) = Exit 0 \<longrightarrow> (\<exists>evs \<in> set inps_tri. SDL_QUIT \<in> set evs)) \<and>
   (fst (main_tri e []) = Running \<longrightarrow> loop_ready_tri (snd (main_tri e [])) \<longrightarrow>
      (\<exists>evs \<in> set inps_tri. SDL_QUIT \<in> set evs) \<longrightarrow> fst (main_tri e inps_tri) = Exit 0) \<and>
   (failure_code (startup_of_tri e) = Some c \<longrightarrow> failure_code (startup_of_tri e') = Some c' \<longrightarrow>
      startup_of_tri e \<noteq> startup_of_tri e' \<longrightarrow>
      fst (main_tri e inps_tri) \<noteq> fst (main_tri e' inps_tri') \<and> c < 0 \<and> c' < 0) \<and>
   (fst (main e inps) = Exit c \<longrightarrow> c = - 1 \<or> c = - 3 \<or> c = - 5 \<or> c = 0) \<and>
   (fst (main_tri e inps_tri) = Exit c \<longrightarrow> c = - 1 \<or> c = - 3 \<or> c = - 5 \<or> c = 0) \<and>
   (startup_of e = BackendLoaderNull \<longrightarrow> fst (main e inps) = Crash) \<and>
   (startup_of e = BackendInitReturned \<longrightarrow>
      m_pSwapChain (backend_session e) = None \<or> m_pDevice (backend_session e) = None \<longrightarrow>
      fst (main e inps) = Crash) \<and>
   (startup_of_tri e = BackendInitReturned \<longrightarrow>
      m_pSwapChain (backend_session_tri e) = None \<or> m_pDevice (backend_session_tri e) = None \<longrightarrow>
      fst (main_tri e inps_tri) = Crash)"
proof -
  have cube: "(startup_of e = SubsystemInitFailure \<longrightarrow> fst (main e inps) = Exit (- 1)) \<and>
   (startup_of e = WindowCreationFailure \<longrightarrow> fst (main e inps) = Exit (- 3)) \<and>
   (startup_of e = BackendInitRaised \<longrightarrow> fst (main e inps) = Exit (- 5)) \<and>
   (fst (main e inps) = Exit 0 \<longrightarrow> (\<exists>i \<in> set inps. SDL_QUIT \<in> set (snd i))) \<and>
   (fst (main e []) = Running \<longrightarrow> loop_ready (snd (main e [])) \<longrightarrow>
      (\<exists>i \<in> set inps. SDL_QUIT \<in> set (snd i)) \<longrightarrow> fst (main e inps) = Exit 0)"
    by (rule main_statuses)
  have cube_distinct: "failure_code (startup_of e) = Some c \<longrightarrow>
      failure_code (startup_of e') = Some c' \<longrightarrow> startup_of e \<noteq> startup_of e' \<longrightarrow>
      fst (main e inps) \<noteq> fst (main e' inps') \<and> c < 0 \<and> c' < 0"
    using main_failures_distinct [of e c e' c' inps inps'] by blast
  have tri: "(startup_of_tri e = SubsystemInitFailure \<longrightarrow> fst (main_tri e inps_tri) = Exit (- 1)) \<and>
   (startup_of_tri e = WindowCreationFailure \<longrightarrow> fst (main_tri e inps_tri) = Exit (- 3)) \<and>
   (startup_of_tri e = BackendInitRaised \<longrightarrow> fst (main_tri e inps_tri) = Exit (- 5)) \<and>
   (fst (main_tri e inps_tri) = Exit 0 \<longrightarrow> (\<exists>evs \<in> set inps_tri. SDL_QUIT \<in> set evs)) \<and>
   (fst (main_tri e []) = Running \<longrightarrow> loop_ready_tri (snd (main_tri e [])) \<longrightarrow>
      (\<exists>evs \<in> set inps_tri. SDL_QUIT \<in> set evs) \<longrightarrow> fst (main_tri e inps_tri) = Exit 0)"
    by (rule main_tri_statuses)
  have tri_distinct: "failure_code (startup_of_tri e) = Some c \<longrightarrow>
      failure_code (startup_of_tri e') = Some c' \<longrightarrow> startup_of_tri e \<noteq> startup_of_tri e' \<longrightarrow>
      fst (main_tri e inps_tri) \<noteq> fst (main_tri e' inps_tri') \<and> c < 0 \<and> c' < 0"
    using main_tri_failures_distinct [of e c e' c' inps_tri inps_tri'] by blast
  have only: "(fst (main e inps) = Exit c \<longrightarrow> c = - 1 \<or> c = - 3 \<or> c = - 5 \<or> c = 0) \<and>
   (fst (main_tri e inps_tri) = Exit c \<longrightarrow> c = - 1 \<or> c = - 3 \<or> c = - 5 \<or> c = 0)"
    using main_Exit_values [of e inps c] main_tri_Exit_values [of e inps_tri c] by blast
  have none: "(startup_of e = BackendLoaderNull \<longrightarrow> fst (main e inps) = Crash) \<and>
   (startup_of e = BackendInitReturned \<longrightarrow>
      m_pSwapChain (backend_session e) = None \<or> m_pDevice (backend_session e) = None \<longrightarrow>
      fst (main e inps) = Crash) \<and>
   (startup_of_tri e = BackendInitReturned \<longrightarrow>
      m_pSwapChain (backend_session_tri e) = None \<or> m_pDevice (backend_session_tri e) = None \<longrightarrow>
      fst (main_tri e inps_tri) = Crash)"
    using main_loader_null [of e inps] main_null_session [of e inps]
      main_tri_null_session [of e inps_tri] by blast
  from cube cube_distinct tri tri_distinct only none show ?thesis
    by (elim conjE, intro conjI) assumption+
qed

lemma startup_of_examples:
  "startup_of env_no_video = SubsystemInitFailure"
  "startup_of env_no_window = WindowCreationFailure"
  "startup_of env_swapchain_throws = BackendInitRaised"
  "startup_of_tri env_no_video = SubsystemInitFailure"
  "startup_of_tri env_no_window = WindowCreationFailure"
  "startup_of_tri env_GL_throws = BackendInitRaised"
  "startup_of env_no_loader = BackendLoaderNull"
  "startup_of env_null_outputs = BackendInitReturned"
  "startup_of_tri env_null_outputs = BackendInitReturned"
  "m_pSwapChain (backend_session env_null_outputs) = None"
  "m_pSwapChain (backend_session_tri env_null_outputs) = None"
  by (simp_all add: startup_of_def startup_of_tri_def env_no_video_def env_no_window_def
      env_swapchain_throws_def env_GL_throws_def env_no_loader_def env_null_outputs_def
      env0_def InitializeGraphicsEngine_def backend_session_def backend_session_tri_def
      InitializeGraphicsEngine_tri_def create_device_then_swapchain_def Let_def
      new_SwapChain_def)

theorem exit_codes_witness:
  "startup_of env_no_video = SubsystemInitFailure \<and> fst (main env_no_video []) = Exit (- 1) \<and>
   startup_of env_no_window = WindowCreationFailure \<and> fst (main env_no_window []) = Exit (- 3) \<and>
   startup_of env_swapchain_throws = BackendInitRaised \<and>
   fst (main env_swapchain_throws []) = Exit (- 5) \<and>
   fst (main env_no_video []) \<noteq> fst (main env_no_window []) \<and>
   fst (main env0 [(0, [SDL_QUIT])]) = Exit 0 \<and>
   fst (main_tri env_no_video []) = Exit (- 1) \<and>
   fst (main_tri env_no_window []) = Exit (- 3) \<and>
   fst (main_tri env_GL_throws []) = Exit (- 5) \<and>
   fst (main_tri env0 [[SDL_QUIT]]) = Exit 0 \<and>
   startup_of env_no_loader = BackendLoaderNull \<and> fst (main env_no_loader []) = Crash \<and>
   startup_of env_null_outputs = BackendInitReturned \<and>
   fst (main env_null_outputs []) = Crash \<and>
   fst (main_tri env_null_outputs []) = Crash"
  using exit_codes [of env_no_video "[]" "- 1" env_no_window "- 3" "[]" "[]" "[]"]
    exit_codes [of env_no_window "[]" "- 3" env_swapchain_throws "- 5" "[]" "[]" "[]"]
    exit_codes [of env_swapchain_throws "[]" "- 5" env0 0 "[]" "[]" "[]"]
    exit_codes [of env_GL_throws "[]" "- 5" env0 0 "[]" "[]" "[]"]
    exit_codes [of env0 "[(0, [SDL_QUIT])]" 0 env0 0 "[]" "[[SDL_QUIT]]" "[]"]
    exit_codes [of env_no_loader "[]" 0 env0 0 "[]" "[]" "[]"]
    exit_codes [of env_null_outputs "[]" 0 env0 0 "[]" "[]" "[]"]
    startup_of_examples env0_started
  by simp

subsection \<open>Resize\<close>

lemma OnResize_again:
  assumes "OnResize e w h s = Some s1"
  shows "OnResize e w h s1 = Some (s1\<lparr> gpu_log := gpu_log s1 @ [Resize w h] \<rparr>)"
  using assms by (auto simp: OnResize_Some resized_desc_def)

text \<open>C7: resize is idempotent. When \<^verbatim>\<open>OnResize(w, h)\<close> has returned, a second call with
  the same arguments returns too; the swap chain reports the dimensions (w, h) after the
  first call and after the second; the projection matrix is the same after both, the one
  for the ratio of w to h; and the second call changes nothing but the log of calls.\<close>

theorem OnResize_idempotent:
  assumes "OnResize e w h s = Some s1"
  shows "\<exists>s2. OnResize e w h s1 = Some s2 \<and>
           reported_size s1 = Some (w, h) \<and> reported_size s2 = Some (w, h) \<and>
           m_projMatrix s1 = projection_for e (aspect_of e w h) \<and>
           m_projMatrix s2 = m_projMatrix s1 \<and>
           s2 = s1\<lparr> gpu_log := gpu_log s1 @ [Resize w h] \<rparr>"
  using OnResize_again [OF assms] assms
  by (auto simp: OnResize_Some reported_size_def resized_desc_def)

text \<open>C10: a resize changes the projection matrix and the dimensions of the swap chain,
  and nothing else: view and model matrix, device, immediate context, pipeline state,
  shader resource binding, vertex, index and constants buffer with their contents, the
  binding of the shader variable, the close flag and the window are as before, and the
  swap chain is the same object with the same buffer count.\<close>

theorem OnResize_frame:
  assumes "OnResize e w h s = Some s'"
  shows "m_viewMatrix s' = m_viewMatrix s \<and> m_modelMatrix s' = m_modelMatrix s \<and>
         m_pDevice s' = m_pDevice s \<and> m_pImmediateContext s' = m_pImmediateContext s \<and>
         m_pPSO s' = m_pPSO s \<and> m_pSRB s' = m_pSRB s \<and>
         cubeVertexBuffer s' = cubeVertexBuffer s \<and> cubeIndexBuffer s' = cubeIndexBuffer s \<and>
         m_pVSConstants s' = m_pVSConstants s \<and> buffers s' = buffers s \<and>
         static_Constants s' = static_Constants s \<and>
         m_windowShouldClose s' = m_windowShouldClose s \<and> m_mainWindow s' = m_mainWindow s \<and>
         map_option sc_id (m_pSwapChain s') = map_option sc_id (m_pSwapChain s) \<and>
         map_option (\<lambda>sc. BufferCount (sc_desc sc)) (m_pSwapChain s') =
           map_option (\<lambda>sc. BufferCount (sc_desc sc)) (m_pSwapChain s) \<and>
         s' = s\<lparr> m_projMatrix := m_projMatrix s', m_pSwapChain := m_pSwapChain s',
                 gpu_log := gpu_log s @ [Resize w h] \<rparr>"
  using assms by (auto simp: OnResize_Some resized_desc_def)

subsection \<open>The calls of one iteration\<close>

lemma visible_constants_cong:
  "static_Constants s' = static_Constants s \<Longrightarrow> buffers s' = buffers s \<Longrightarrow>
   visible_constants s' = visible_constants s"
  by (auto simp: visible_constants_def split: option.splits)

lemma render_ops:
  assumes "render e videoMode ticks s = Some s'"
  shows "\<exists>cb. m_pVSConstants s = Some cb \<and>
           frame_ops s s' =
             [SetRenderTargets, ClearRenderTarget (ClearColor e),
              ClearDepthStencil (float_lit e 1),
              SetVertexBuffers (cubeVertexBuffer s), SetIndexBuffer (cubeIndexBuffer s),
              SetPipelineState (m_pPSO s),
              MapBuffer cb, WriteMapped cb (Transpose e (combined e ticks s)), UnmapBuffer cb,
              CommitShaderResources (m_pSRB s),
              DrawIndexed VT_UINT32 36 (visible_constants s'),
              Present (syncInterval videoMode)]"
proof -
  from assms obtain cb where cb: "m_pVSConstants s = Some cb"
    and s': "s' = s\<lparr> m_modelMatrix := model_at e ticks,
                buffers := buffer_write cb (MatrixData (Transpose e (combined e ticks s))) (buffers s),
                gpu_log := gpu_log s @
                  [SetRenderTargets, ClearRenderTarget (ClearColor e),
                   ClearDepthStencil (float_lit e 1),
                   SetVertexBuffers (cubeVertexBuffer s), SetIndexBuffer (cubeIndexBuffer s),
                   SetPipelineState (m_pPSO s),
                   MapBuffer cb, WriteMapped cb (Transpose e (combined e ticks s)), UnmapBuffer cb,
                   CommitShaderResources (m_pSRB s),
                   DrawIndexed VT_UINT32 36
                     (visible_constants
                        (s\<lparr> buffers := buffer_write cb (MatrixData (Transpose e (combined e ticks s)))
                                          (buffers s) \<rparr>)),
                   Present (syncInterval videoMode)] \<rparr>"
    by (auto simp: render_Some)
  have v: "visible_constants s' =
           visible_constants
             (s\<lparr> buffers := buffer_write cb (MatrixData (Transpose e (combined e ticks s)))
                               (buffers s) \<rparr>)"
    by (rule visible_constants_cong) (simp_all add: s')
  show ?thesis
    unfolding v using cb by (simp add: frame_ops_def s')
qed

lemma frame_ops_append: "gpu_log s' = gpu_log s @ xs \<Longrightarrow> frame_ops s s' = xs"
  by (simp add: frame_ops_def)

lemma render_log:
  assumes "render e videoMode ticks s = Some s'"
  shows "gpu_log s' = gpu_log s @ frame_ops s s'"
  using assms by (auto simp: render_Some frame_ops_def)

lemma frame_split:
  assumes "frame e videoMode inp s = Some s'"
  shows "\<exists>s1. poll_events e (snd inp) s = Some s1 \<and> render e videoMode (fst inp) s1 = Some s' \<and>
           frame_ops s s' = map (\<lambda>(w, h). Resize w h) (resizes (snd inp)) @ frame_ops s1 s' \<and>
           gpu_log s' = gpu_log s @ frame_ops s s'"
proof -
  from assms obtain s1 where p: "poll_events e (snd inp) s = Some s1"
    and r: "render e videoMode (fst inp) s1 = Some s'"
    by (auto simp: frame_def split: option.splits)
  from poll_events_log [OF p] render_log [OF r]
  have g: "gpu_log s' =
           gpu_log s @ (map (\<lambda>(w, h). Resize w h) (resizes (snd inp)) @ frame_ops s1 s')"
    by simp
  from frame_ops_append [OF g]
  have f: "frame_ops s s' = map (\<lambda>(w, h). Resize w h) (resizes (snd inp)) @ frame_ops s1 s'" .
  from g f have "gpu_log s' = gpu_log s @ frame_ops s s'" by simp
  with f p r show ?thesis by blast
qed

lemma map_op_kind_resizes:
  "map (op_kind \<circ> (\<lambda>(w, h). Resize w h)) rs = replicate (length rs) KResize"
  by (induction rs) auto

lemma frame_kinds_ok:
  assumes "frame e videoMode inp s = Some s'"
  shows "map op_kind (frame_ops s s') = frame_kinds inp"
proof -
  from frame_split [OF assms] obtain s1 where
    r: "render e videoMode (fst inp) s1 = Some s'"
    and f: "frame_ops s s' = map (\<lambda>(w, h). Resize w h) (resizes (snd inp)) @ frame_ops s1 s'"
    by blast
  from render_ops [OF r] have "map op_kind (frame_ops s1 s') = render_kinds"
    by (auto simp: render_kinds_def)
  with f show ?thesis by (simp add: frame_kinds_def map_op_kind_resizes)
qed

lemma frame_log:
  assumes "frame e videoMode inp s = Some s'"
  shows "gpu_log s' = gpu_log s @ frame_ops s s'"
  using frame_split [OF assms] by blast

lemma main_loop_kinds:
  "main_loop e videoMode inps s = StillRunning s' \<Longrightarrow>
   map op_kind (gpu_log s') = map op_kind (gpu_log s) @ concat (map frame_kinds inps)"
proof (induction inps arbitrary: s)
  case Nil
  then show ?case by simp
next
  case (Cons inp inps)
  then obtain s1 where f: "frame e videoMode inp s = Some s1"
    and m: "main_loop e videoMode inps s1 = StillRunning s'"
    by (auto split: option.splits if_splits)
  from frame_log [OF f] frame_kinds_ok [OF f]
  have "map op_kind (gpu_log s1) = map op_kind (gpu_log s) @ frame_kinds inp"
    by (metis map_append)
  with Cons.IH [OF m] show ?case by simp
qed

lemma main_Running_kinds:
  assumes "main e inps = (Running, s)"
  shows "map op_kind (gpu_log s) = concat (map frame_kinds inps)"
proof -
  from assms have st: "fst (main e []) = Running"
    by (auto simp: main_def Let_def
        split: if_splits prod.splits init_result.splits option.splits loop_result.splits)
  with main_started [OF st, of inps] assms
  have "main_loop e videoMode_main inps (snd (main e [])) = StillRunning s"
    by (auto split: loop_result.splits)
  from main_loop_kinds [OF this] main_entry [OF st] show ?thesis by simp
qed

lemma render_tri_ops:
  assumes "frame_tri e evs s = Some s'"
  shows "frame_ops s s' =
           [SetRenderTargets, ClearRenderTarget (ClearColor e), ClearDepthStencil (float_lit e 1),
            SetPipelineState (m_pPSO s), Draw 3, Present 1] \<and>
         gpu_log s' = gpu_log s @ frame_ops s s'"
  using assms
  by (auto simp: frame_tri_def poll_events_tri_state render_tri_Some frame_ops_def
      split: if_splits)

lemma main_loop_tri_kinds:
  "main_loop_tri e inps s = StillRunning s' \<Longrightarrow>
   map op_kind (gpu_log s') =
     map op_kind (gpu_log s) @ concat (map (\<lambda>evs. render_kinds_tri) inps)"
proof (induction inps arbitrary: s)
  case Nil
  then show ?case by simp
next
  case (Cons evs inps)
  then obtain s1 where f: "frame_tri e evs s = Some s1"
    and m: "main_loop_tri e inps s1 = StillRunning s'"
    by (auto split: option.splits if_splits)
  from render_tri_ops [OF f]
  have "map op_kind (gpu_log s1) = map op_kind (gpu_log s) @ render_kinds_tri"
    by (simp add: render_kinds_tri_def)
  with Cons.IH [OF m] show ?case by simp
qed

lemma main_tri_Running_kinds:
  assumes "main_tri e inps = (Running, s)"
  shows "map op_kind (gpu_log s) = concat (map (\<lambda>evs. render_kinds_tri) inps)"
proof -
  from assms have st: "fst (main_tri e []) = Running"
    by (auto simp: main_tri_def Let_def
        split: if_splits prod.splits init_result.splits option.splits loop_result.splits)
  with main_tri_started [OF st, of inps] assms
  have "main_loop_tri e inps (snd (main_tri e [])) = StillRunning s"
    by (auto split: loop_result.splits)
  from main_loop_tri_kinds [OF this] main_tri_entry [OF st] show ?thesis by simp
qed

lemma order_in_frame_kinds:
  "subseq [KSetRenderTargets, KClearRenderTarget, KClearDepthStencil, KDrawIndexed]
     (frame_kinds inp) \<and>
   subseq [KMapBuffer, KWriteMapped, KUnmapBuffer, KDrawIndexed] (frame_kinds inp) \<and>
   count_list (frame_kinds inp) KDrawIndexed = 1 \<and>
   subseq [KSetRenderTargets, KClearRenderTarget, KClearDepthStencil, KDraw] render_kinds_tri \<and>
   count_list render_kinds_tri KDraw = 1"
proof -
  have 1: "subseq [KSetRenderTargets, KClearRenderTarget, KClearDepthStencil, KDrawIndexed]
     render_kinds"
    by (simp add: render_kinds_def list_emb_code)
  have 2: "subseq [KMapBuffer, KWriteMapped, KUnmapBuffer, KDrawIndexed] render_kinds"
    by (simp add: render_kinds_def list_emb_code)
  have 3: "count_list (frame_kinds inp) KDrawIndexed = 1"
    by (simp add: frame_kinds_def render_kinds_def count_list_append)
  have 4: "subseq [KSetRenderTargets, KClearRenderTarget, KClearDepthStencil, KDraw]
     render_kinds_tri"
    by (simp add: render_kinds_tri_def list_emb_code)
  have 5: "count_list render_kinds_tri KDraw = 1"
    by (simp add: render_kinds_tri_def)
  from 1 2 3 4 5 show ?thesis
    by (simp add: frame_kinds_def list_emb_append2)
qed

text \<open>C4: the order of the calls of the render step. By kind, the calls an iteration of
  the cube variant adds to the log are one \<open>Resize\<close> for each resize event polled,
  followed by the twelve calls of \<open>render_kinds\<close> in that order; the log of a run that
  is still in its loop is the concatenation of these sequences, one for each iteration.
  In the sequence of every iteration the binding of the render targets comes before the
  two clears, the clears before the draw, and the map, the write and the unmap of the
  constants buffer before the draw, of which there is one. The triangle variant adds the
  six calls of \<open>render_kinds_tri\<close>: binding, the two clears, the pipeline state, one
  draw, the present.\<close>

theorem render_step_order:
  "(frame e videoMode inp s = Some s' \<longrightarrow> map op_kind (frame_ops s s') = frame_kinds inp) \<and>
   (main e inps = (Running, s_run) \<longrightarrow>
      map op_kind (gpu_log s_run) = concat (map frame_kinds inps)) \<and>
   subseq [KSetRenderTargets, KClearRenderTarget, KClearDepthStencil, KDrawIndexed]
     (frame_kinds inp) \<and>
   subseq [KMapBuffer, KWriteMapped, KUnmapBuffer, KDrawIndexed] (frame_kinds inp) \<and>
   count_list (frame_kinds inp) KDrawIndexed = 1 \<and>
   (frame_tri e evs t = Some t' \<longrightarrow> map op_kind (frame_ops t t') = render_kinds_tri) \<and>
   (main_tri e inps_tri = (Running, s_run_tri) \<longrightarrow>
      map op_kind (gpu_log s_run_tri) = concat (map (\<lambda>evs. render_kinds_tri) inps_tri)) \<and>
   subseq [KSetRenderTargets, KClearRenderTarget, KClearDepthStencil, KDraw] render_kinds_tri \<and>
   count_list render_kinds_tri KDraw = 1"
  using frame_kinds_ok [of e videoMode inp s s'] main_Running_kinds [of e inps s_run]
    render_tri_ops [of e evs t t'] main_tri_Running_kinds [of e inps_tri s_run_tri]
    order_in_frame_kinds [of inp]
  by (simp add: render_kinds_tri_def)

subsection \<open>The constants buffer\<close>

lemma map_of_buffer_write:
  "map_of (buffer_write h d bs) k =
     (if k = h then map_option (\<lambda>b. b\<lparr> data := d \<rparr>) (map_of bs h) else map_of bs k)"
  by (induction bs) auto

lemma handle_event_same:
  "handle_event e ev s = Some s' \<Longrightarrow>
   m_viewMatrix s' = m_viewMatrix s \<and> m_modelMatrix s' = m_modelMatrix s \<and>
   m_pVSConstants s' = m_pVSConstants s \<and> buffers s' = buffers s \<and>
   static_Constants s' = static_Constants s \<and>
   cubeVertexBuffer s' = cubeVertexBuffer s \<and> cubeIndexBuffer s' = cubeIndexBuffer s \<and>
   m_pPSO s' = m_pPSO s \<and> m_pSRB s' = m_pSRB s"
  by (induction e ev s rule: handle_event.induct) (auto simp: OnResize_Some)

lemma poll_events_same:
  "poll_events e evs s = Some s' \<Longrightarrow>
   m_viewMatrix s' = m_viewMatrix s \<and> m_modelMatrix s' = m_modelMatrix s \<and>
   m_pVSConstants s' = m_pVSConstants s \<and> buffers s' = buffers s \<and>
   static_Constants s' = static_Constants s \<and>
   cubeVertexBuffer s' = cubeVertexBuffer s \<and> cubeIndexBuffer s' = cubeIndexBuffer s \<and>
   m_pPSO s' = m_pPSO s \<and> m_pSRB s' = m_pSRB s"
proof (induction evs arbitrary: s)
  case Nil
  then show ?case by simp
next
  case (Cons ev evs)
  then obtain s1 where h: "handle_event e ev s = Some s1" and p: "poll_events e evs s1 = Some s'"
    by (auto split: option.splits)
  from Cons.IH [OF p] handle_event_same [OF h] show ?case by simp
qed

lemma render_wired:
  assumes r: "render e videoMode ticks s = Some s'" and w: "constants_wired s"
  shows "constants_wired s' \<and> visible_constants s' = Some (WorldViewProjT e s') \<and>
         WorldViewProjT e s' = Transpose e (combined e ticks s) \<and>
         m_modelMatrix s' = model_at e ticks \<and> m_viewMatrix s' = m_viewMatrix s \<and>
         m_projMatrix s' = m_projMatrix s"
proof -
  from r obtain cb where cb: "m_pVSConstants s = Some cb"
    and s': "s' = s\<lparr> m_modelMatrix := model_at e ticks,
                buffers := buffer_write cb (MatrixData (Transpose e (combined e ticks s))) (buffers s),
                gpu_log := gpu_log s' \<rparr>"
    by (auto simp: render_Some)
  from w cb obtain b where b: "map_of (buffers s) cb = Some b" and st: "static_Constants s = Some cb"
    by (auto simp: constants_wired_def)
  have 1: "constants_wired s'"
    by (subst s') (simp add: constants_wired_def cb st map_of_buffer_write b)
  have 2: "WorldViewProjT e s' = Transpose e (combined e ticks s)"
    by (subst s') (simp add: WorldViewProjT_def combined_def)
  have 3: "visible_constants s' = Some (Transpose e (combined e ticks s))"
    by (subst s') (simp add: visible_constants_def st map_of_buffer_write b)
  have 4: "m_modelMatrix s' = model_at e ticks \<and> m_viewMatrix s' = m_viewMatrix s \<and>
         m_projMatrix s' = m_projMatrix s"
    by (subst s', subst s', subst s') simp
  from 1 2 3 4 show ?thesis by simp
qed

lemma poll_events_wired:
  "poll_events e evs s = Some s' \<Longrightarrow> constants_wired s \<Longrightarrow> constants_wired s'"
  by (drule poll_events_same) (auto simp: constants_wired_def split: option.splits)

lemma frame_wired:
  assumes f: "frame e videoMode inp s = Some s'" and w: "constants_wired s"
  shows "constants_wired s' \<and> visible_constants s' = Some (WorldViewProjT e s') \<and>
         m_modelMatrix s' = model_at e (fst inp) \<and> m_viewMatrix s' = m_viewMatrix s"
proof -
  from f obtain s1 where p: "poll_events e (snd inp) s = Some s1"
    and r: "render e videoMode (fst inp) s1 = Some s'"
    by (auto simp: frame_def split: option.splits)
  from render_wired [OF r poll_events_wired [OF p w]] poll_events_same [OF p]
  show ?thesis by simp
qed

lemma frame_write_and_draw:
  assumes f: "frame e videoMode inp s = Some s'" and w: "constants_wired s"
  shows "\<exists>cb. m_pVSConstants s = Some cb \<and>
           [op \<leftarrow> frame_ops s s'. op_kind op = KWriteMapped \<or> op_kind op = KDrawIndexed] =
             [WriteMapped cb (WorldViewProjT e s'),
              DrawIndexed VT_UINT32 36 (Some (WorldViewProjT e s'))]"
proof -
  from frame_split [OF f] obtain s1 where p: "poll_events e (snd inp) s = Some s1"
    and r: "render e videoMode (fst inp) s1 = Some s'"
    and fo: "frame_ops s s' = map (\<lambda>(w, h). Resize w h) (resizes (snd inp)) @ frame_ops s1 s'"
    by blast
  from render_wired [OF r poll_events_wired [OF p w]]
  have v: "visible_constants s' = Some (WorldViewProjT e s')"
    and t: "WorldViewProjT e s' = Transpose e (combined e (fst inp) s1)" by simp_all
  from render_ops [OF r] obtain cb where cb: "m_pVSConstants s1 = Some cb"
    and ro: "frame_ops s1 s' =
             [SetRenderTargets, ClearRenderTarget (ClearColor e),
              ClearDepthStencil (float_lit e 1),
              SetVertexBuffers (cubeVertexBuffer s1), SetIndexBuffer (cubeIndexBuffer s1),
              SetPipelineState (m_pPSO s1),
              MapBuffer cb, WriteMapped cb (Transpose e (combined e (fst inp) s1)), UnmapBuffer cb,
              CommitShaderResources (m_pSRB s1),
              DrawIndexed VT_UINT32 36 (visible_constants s'),
              Present (syncInterval videoMode)]"
    by blast
  have rs: "[op \<leftarrow> map (\<lambda>(w, h). Resize w h) rs.
              op_kind op = KWriteMapped \<or> op_kind op = KDrawIndexed] = []" for rs :: "(32 word \<times> 32 word) list"
    by (induction rs) auto
  from poll_events_same [OF p] cb have "m_pVSConstants s = Some cb" by simp
  then show ?thesis
    by (simp add: fo ro rs v t)
qed

subsection \<open>Runs in the concrete environment\<close>

lemma env0_fields:
  "target env0 = Win32" "SDL_Init env0 = 0" "SDL_CreateWindow env0 = Some 1"
  "float_lit env0 = (\<lambda>q. q)" "float_of_int env0 = rat_of_int" "fdiv env0 = (\<lambda>a b. a / b)"
  "M_PI_2 env0 = 355 / 226" "float4x4_default env0 = DefaultM"
  "Projection env0 = ProjectionM" "Identity env0 = IdentityM" "RotationY env0 = RotationYM"
  "Translation env0 = TranslationM" "mul env0 = MulM" "Transpose env0 = TransposeM"
  "LoadGraphicsEngineD3D11 env0 = True"
  "CreateDeviceAndContextsD3D11 env0 = Returns (Some 2, Some 3)"
  "CreateSwapChainD3D11 env0 = Returns (Some 4)"
  "CreateDeviceAndSwapChainGL env0 = Returns (Some 2, Some 3, Some 4)"
  "CreateBuffer_constants env0 = Some 7" "CreateBuffer_vertex env0 = Some 8"
  "CreateBuffer_index env0 = Some 9" "CreateGraphicsPipelineState env0 = Some 10"
  "GetStaticVariableByName_Constants env0 = True"
  "CreateShaderResourceBinding env0 = Some 11"
  by (simp_all add: env0_def)

lemma main_env0_nil: "main env0 [] = (Running, entry0)"
  by (simp add: main_def env0_fields Let_def initial_state_def entry0_def
      InitializeGraphicsEngine_def create_device_then_swapchain_def new_SwapChain_def
      make_SCDesc_def init_resources_def create_buffer_def videoMode_main_def
      sizeof_float4x4_def sizeof_uint32_def sizeof_Vertex_def CubeVerts_def CubeIndices_def)

lemma main_tri_env0_nil: "main_tri env0 [] = (Running, entry0_tri)"
  by (simp add: main_tri_def env0_fields Let_def initial_state_def entry0_tri_def
      InitializeGraphicsEngine_tri_def new_SwapChain_def
      make_SCDesc_def init_resources_tri_def videoMode_tri_def)

lemma frame_env0_resize:
  "frame env0 videoMode_main (0, [SDL_WINDOWEVENT (SDL_WINDOWEVENT_RESIZED 800 600)]) entry0 =
   Some framed0"
  by (simp add: frame_def OnResize_def ISwapChain_Resize_def render_def ctx_call_def Let_def
      entry0_def env0_fields model_at_def MapHelper_store_def DrawIndexed_call_def
      visible_constants_def ClearColor_def videoMode_main_def framed0_def)

lemma frame_tri_env0:
  "frame_tri env0 [] entry0_tri =
   Some (entry0_tri\<lparr> gpu_log :=
     [SetRenderTargets, ClearRenderTarget [7 / 20, 7 / 20, 7 / 20, 1], ClearDepthStencil 1,
      SetPipelineState (Some 10), Draw 3, Present 1] \<rparr>)"
  by (simp add: frame_tri_def render_tri_def ctx_call_def Let_def entry0_tri_def env0_fields
      ClearColor_def)

subsection \<open>The transform state\<close>

lemma projection_after_append:
  "projection_after e p (rs @ rs') = projection_after e (projection_after e p rs) rs'"
  by (induction rs arbitrary: p) auto

lemma projection_after_last:
  "projection_after e p (rs @ [(w, h)]) = projection_for e (aspect_of e w h)"
  by (simp add: projection_after_append)

lemma size_after_append: "size_after z (rs @ rs') = size_after (size_after z rs) rs'"
  by (induction rs arbitrary: z) auto

lemma resizes_append: "resizes (evs @ evs') = resizes evs @ resizes evs'"
  by (simp add: resizes_def List.map_filter_def)

lemma handle_event_proj:
  "handle_event e ev s = Some s' \<Longrightarrow>
   m_projMatrix s' = projection_after e (m_projMatrix s) (resizes [ev]) \<and>
   reported_size s' = size_after (reported_size s) (resizes [ev])"
  by (induction e ev s rule: handle_event.induct)
     (auto simp: OnResize_Some reported_size_def resized_desc_def)

lemma poll_events_proj:
  "poll_events e evs s = Some s' \<Longrightarrow>
   m_projMatrix s' = projection_after e (m_projMatrix s) (resizes evs) \<and>
   reported_size s' = size_after (reported_size s) (resizes evs)"
proof (induction evs arbitrary: s)
  case Nil
  then show ?case by simp
next
  case (Cons ev evs)
  then obtain s1 where h: "handle_event e ev s = Some s1" and p: "poll_events e evs s1 = Some s'"
    by (auto split: option.splits)
  from Cons.IH [OF p] handle_event_proj [OF h] show ?case
    by (subst (1 2) resizes_Cons) (simp add: projection_after_append size_after_append)
qed

lemma render_same:
  "render e videoMode ticks s = Some s' \<Longrightarrow>
   m_projMatrix s' = m_projMatrix s \<and> reported_size s' = reported_size s \<and>
   m_viewMatrix s' = m_viewMatrix s \<and> m_modelMatrix s' = model_at e ticks"
  by (auto simp: render_Some reported_size_def)

lemma frame_transforms:
  assumes "frame e videoMode inp s = Some s'"
  shows "m_modelMatrix s' = model_at e (fst inp) \<and> m_viewMatrix s' = m_viewMatrix s \<and>
         m_projMatrix s' = projection_after e (m_projMatrix s) (resizes (snd inp)) \<and>
         reported_size s' = size_after (reported_size s) (resizes (snd inp))"
proof -
  from assms obtain s1 where p: "poll_events e (snd inp) s = Some s1"
    and r: "render e videoMode (fst inp) s1 = Some s'"
    by (auto simp: frame_def split: option.splits)
  from poll_events_proj [OF p] poll_events_same [OF p] render_same [OF r]
  show ?thesis by simp
qed

lemma main_loop_transforms:
  "main_loop e videoMode inps s = StillRunning s' \<Longrightarrow>
   m_viewMatrix s' = m_viewMatrix s \<and>
   m_projMatrix s' = projection_after e (m_projMatrix s) (resizes (concat (map snd inps))) \<and>
   reported_size s' = size_after (reported_size s) (resizes (concat (map snd inps))) \<and>
   (constants_wired s \<longrightarrow> constants_wired s')"
proof (induction inps arbitrary: s)
  case Nil
  then show ?case by simp
next
  case (Cons inp inps)
  then obtain s1 where f: "frame e videoMode inp s = Some s1"
    and m: "main_loop e videoMode inps s1 = StillRunning s'"
    by (auto split: option.splits if_splits)
  from Cons.IH [OF m] frame_transforms [OF f] frame_wired [OF f] show ?case
    by (simp add: resizes_append projection_after_append size_after_append)
qed

lemma init_resources_entry:
  assumes "init_resources e s = Some s'"
  shows "constants_wired s' \<and> m_viewMatrix s' = Identity e \<and>
         m_projMatrix s' = projection_for e (fdiv e (float_lit e 16) (float_lit e 9)) \<and>
         cubeIndexBuffer s' = CreateBuffer_index e \<and>
         (case CreateBuffer_index e of
            None \<Rightarrow> True
          | Some h \<Rightarrow> map_of (buffers s') h =
              Some \<lparr> Size = 36 * 4, data = IndexData CubeIndices \<rparr>)"
  using assms
  by (auto simp: init_resources_def Let_def constants_wired_def create_buffer_def
      projection_for_def sizeof_uint32_def CubeIndices_def
      split: option.splits if_splits)

lemma main_nil_entry:
  assumes "main e [] = (Running, s)"
  shows "constants_wired s \<and> m_viewMatrix s = Identity e \<and>
         m_projMatrix s = projection_for e (fdiv e (float_lit e 16) (float_lit e 9)) \<and>
         cubeIndexBuffer s = CreateBuffer_index e \<and>
         (case CreateBuffer_index e of
            None \<Rightarrow> True
          | Some h \<Rightarrow> map_of (buffers s) h =
              Some \<lparr> Size = 36 * 4, data = IndexData CubeIndices \<rparr>)"
proof -
  from assms obtain s2 where "init_resources e s2 = Some s"
    by (auto simp: main_def Let_def
        split: if_splits prod.splits init_result.splits option.splits)
  from init_resources_entry [OF this] show ?thesis .
qed

lemma main_Running_loop:
  assumes "main e inps = (Running, s)"
  shows "\<exists>s0. main e [] = (Running, s0) \<and> main_loop e videoMode_main inps s0 = StillRunning s"
proof -
  from assms have st: "fst (main e []) = Running"
    by (auto simp: main_def Let_def
        split: if_splits prod.splits init_result.splits option.splits loop_result.splits)
  with main_started [OF st, of inps] assms
  have "main_loop e videoMode_main inps (snd (main e [])) = StillRunning s"
    by (auto split: loop_result.splits)
  with st show ?thesis by (metis prod.collapse)
qed

lemma main_Running_transforms:
  assumes "main e inps = (Running, s)"
  shows "constants_wired s \<and> m_viewMatrix s = Identity e \<and>
         m_projMatrix s =
           projection_after e (projection_for e (fdiv e (float_lit e 16) (float_lit e 9)))
             (resizes (concat (map snd inps)))"
proof -
  from main_Running_loop [OF assms] obtain s0 where n: "main e [] = (Running, s0)"
    and l: "main_loop e videoMode_main inps s0 = StillRunning s" by blast
  from main_loop_transforms [OF l] main_nil_entry [OF n] show ?thesis by simp
qed

subsection \<open>The properties at concrete inputs\<close>

lemma OnResize_entry0: "OnResize env0 800 600 entry0 = Some resized0"
  by (simp add: OnResize_def ISwapChain_Resize_def ctx_call_def Let_def entry0_def env0_fields
      resized0_def)

theorem OnResize_idempotent_witness:
  "OnResize env0 800 600 entry0 = Some resized0 \<and>
   OnResize env0 800 600 resized0 = Some (resized0\<lparr> gpu_log := [Resize 800 600, Resize 800 600] \<rparr>) \<and>
   reported_size resized0 = Some (800, 600) \<and>
   m_projMatrix resized0 = ProjectionM (355 / 226) (4 / 3) (1 / 10) 1000 False"
  using OnResize_idempotent [OF OnResize_entry0] OnResize_entry0
  by (auto simp: resized0_def entry0_def)

theorem OnResize_frame_witness:
  "OnResize env0 800 600 entry0 = Some resized0 \<and>
   m_viewMatrix resized0 = IdentityM \<and> m_modelMatrix resized0 = IdentityM \<and>
   m_pDevice resized0 = Some 2 \<and> m_pImmediateContext resized0 = Some 3 \<and>
   m_pPSO resized0 = Some 10 \<and> m_pSRB resized0 = Some 11 \<and>
   m_pVSConstants resized0 = Some 7 \<and> buffers resized0 = buffers entry0 \<and>
   m_windowShouldClose resized0 = False"
  using OnResize_frame [OF OnResize_entry0] OnResize_entry0
  by (simp add: entry0_def)

theorem render_step_order_witness:
  "frame env0 videoMode_main (0, [SDL_WINDOWEVENT (SDL_WINDOWEVENT_RESIZED 800 600)]) entry0 =
     Some framed0 \<and>
   map op_kind (frame_ops entry0 framed0) =
     [KResize, KSetRenderTargets, KClearRenderTarget, KClearDepthStencil, KSetVertexBuffers,
      KSetIndexBuffer, KSetPipelineState, KMapBuffer, KWriteMapped, KUnmapBuffer,
      KCommitShaderResources, KDrawIndexed, KPresent] \<and>
   main env0 [] = (Running, entry0) \<and> map op_kind (gpu_log entry0) = [] \<and>
   map op_kind (frame_ops entry0_tri (the (frame_tri env0 [] entry0_tri))) =
     [KSetRenderTargets, KClearRenderTarget, KClearDepthStencil, KSetPipelineState,
      KDraw, KPresent] \<and>
   main_tri env0 [] = (Running, entry0_tri) \<and> map op_kind (gpu_log entry0_tri) = []"
  using render_step_order [of env0 videoMode_main
      "(0, [SDL_WINDOWEVENT (SDL_WINDOWEVENT_RESIZED 800 600)])" entry0 framed0 "[]" entry0
      "[]" entry0_tri "the (frame_tri env0 [] entry0_tri)" "[]" entry0_tri]
    frame_env0_resize frame_tri_env0 main_env0_nil main_tri_env0_nil
  by (simp add: frame_kinds_def render_kinds_def render_kinds_tri_def)

lemma MapHelper_store_visible:
  assumes "constants_wired s" and "m_pVSConstants s = Some cb"
  shows "visible_constants (MapHelper_store cb M s) = Some M"
  using assms
  by (auto simp: constants_wired_def MapHelper_store_def ctx_call_def visible_constants_def
      map_of_buffer_write)

text \<open>C3: in every iteration of a run of the cube variant, the matrix written through the
  mapping of the constants buffer is the transpose of model times view times projection,
  the three matrices as they stand in that iteration (\<open>WorldViewProjT\<close>), and the draw
  call that follows reads exactly this matrix. For any matrix \<open>M\<close>, what the code stores
  for the combined matrix \<open>M\<close> is \<open>Transpose M\<close>, and that is what the constants buffer
  shows to a draw after the scope of the mapping has ended.\<close>

theorem constants_hold_transposed_product:
  "(main e pre = (Running, s) \<longrightarrow> frame e videoMode_main inp s = Some s' \<longrightarrow>
      (\<exists>cb. m_pVSConstants s = Some cb \<and>
         [op \<leftarrow> frame_ops s s'. op_kind op = KWriteMapped \<or> op_kind op = KDrawIndexed] =
           [WriteMapped cb (WorldViewProjT e s'),
            DrawIndexed VT_UINT32 36 (Some (WorldViewProjT e s'))]) \<and>
      visible_constants s' = Some (WorldViewProjT e s') \<and>
      m_modelMatrix s' = model_at e (fst inp)) \<and>
   (constants_wired s1 \<longrightarrow> m_pVSConstants s1 = Some cb1 \<longrightarrow>
      visible_constants (MapHelper_store cb1 (Transpose e M) s1) = Some (Transpose e M))"
  using main_Running_transforms [of e pre s] frame_write_and_draw [of e videoMode_main inp s s']
    frame_wired [of e videoMode_main inp s s'] MapHelper_store_visible [of s1 cb1 "Transpose e M"]
  by blast

theorem constants_hold_transposed_product_witness:
  "main env0 [] = (Running, entry0) \<and>
   frame env0 videoMode_main (0, [SDL_WINDOWEVENT (SDL_WINDOWEVENT_RESIZED 800 600)]) entry0 =
     Some framed0 \<and>
   [op \<leftarrow> frame_ops entry0 framed0. op_kind op = KWriteMapped \<or> op_kind op = KDrawIndexed] =
     [WriteMapped 7
        (TransposeM (MulM (MulM (MulM (RotationYM 0) (TranslationM 0 0 5)) IdentityM)
                        (ProjectionM (355 / 226) (4 / 3) (1 / 10) 1000 False))),
      DrawIndexed VT_UINT32 36
        (Some (TransposeM (MulM (MulM (MulM (RotationYM 0) (TranslationM 0 0 5)) IdentityM)
                        (ProjectionM (355 / 226) (4 / 3) (1 / 10) 1000 False))))] \<and>
   constants_wired entry0 \<and>
   visible_constants (MapHelper_store 7 (TransposeM (RotationYM 1)) entry0) =
     Some (TransposeM (RotationYM 1))"
proof -
  have w: "constants_wired entry0"
    by (simp add: constants_wired_def entry0_def)
  have c: "m_pVSConstants entry0 = Some 7"
    by (simp add: entry0_def)
  have s': "WorldViewProjT env0 framed0 =
      TransposeM (MulM (MulM (MulM (RotationYM 0) (TranslationM 0 0 5)) IdentityM)
                        (ProjectionM (355 / 226) (4 / 3) (1 / 10) 1000 False))"
    by (simp add: WorldViewProjT_def env0_fields framed0_def entry0_def)
  from constants_hold_transposed_product [of env0 "[]" entry0
      "(0, [SDL_WINDOWEVENT (SDL_WINDOWEVENT_RESIZED 800 600)])" framed0 entry0 7 "RotationYM 1"]
    main_env0_nil frame_env0_resize w c s'
  show ?thesis by (simp add: env0_fields)
qed

text \<open>C5: every iteration issues exactly one draw call. In the cube variant it is
  \<^verbatim>\<open>DrawIndexed\<close> with index type \<open>VT_UINT32\<close> and 36 indices, the length of
  \<open>CubeIndices\<close>; the index buffer the iteration binds is \<open>cubeIndexBuffer\<close>, which
  was created with the 36 elements of \<open>CubeIndices\<close>, four bytes each. In the triangle
  variant it is \<^verbatim>\<open>Draw\<close> with 3 vertices.\<close>

theorem one_draw_per_iteration:
  "(frame e videoMode inp s = Some s' \<longrightarrow>
      [op \<leftarrow> frame_ops s s'. is_draw op] =
        [DrawIndexed VT_UINT32 (length CubeIndices) (visible_constants s')] \<and>
      [op \<leftarrow> frame_ops s s'. op_kind op = KSetIndexBuffer] =
        [SetIndexBuffer (cubeIndexBuffer s)]) \<and>
   length CubeIndices = 36 \<and>
   (main e [] = (Running, s0) \<longrightarrow> cubeIndexBuffer s0 = Some h \<longrightarrow>
      map_of (buffers s0) h = Some \<lparr> Size = 36 * 4, data = IndexData CubeIndices \<rparr>) \<and>
   (frame_tri e evs t = Some t' \<longrightarrow> [op \<leftarrow> frame_ops t t'. is_draw op] = [Draw 3])"
proof -
  have rs: "[op \<leftarrow> map (\<lambda>(w, h). Resize w h) rs. is_draw op] = [] \<and>
            [op \<leftarrow> map (\<lambda>(w, h). Resize w h) rs. op_kind op = KSetIndexBuffer] = []"
    for rs :: "(32 word \<times> 32 word) list"
    by (induction rs) auto
  have n: "length CubeIndices = 36"
    by (simp add: CubeIndices_def)
  have 1: "[op \<leftarrow> frame_ops s s'. is_draw op] =
        [DrawIndexed VT_UINT32 (length CubeIndices) (visible_constants s')] \<and>
      [op \<leftarrow> frame_ops s s'. op_kind op = KSetIndexBuffer] =
        [SetIndexBuffer (cubeIndexBuffer s)]" if f: "frame e videoMode inp s = Some s'"
  proof -
    from frame_split [OF f] obtain s1 where p: "poll_events e (snd inp) s = Some s1"
      and r: "render e videoMode (fst inp) s1 = Some s'"
      and fo: "frame_ops s s' = map (\<lambda>(w, h). Resize w h) (resizes (snd inp)) @ frame_ops s1 s'"
      by blast
    from render_ops [OF r] poll_events_same [OF p] show ?thesis
      by (auto simp: fo rs n)
  qed
  have 2: "map_of (buffers s0) h = Some \<lparr> Size = 36 * 4, data = IndexData CubeIndices \<rparr>"
    if "main e [] = (Running, s0)" "cubeIndexBuffer s0 = Some h"
    using main_nil_entry [OF that(1)] that(2) by (auto split: option.splits)
  have 3: "[op \<leftarrow> frame_ops t t'. is_draw op] = [Draw 3]" if "frame_tri e evs t = Some t'"
    using render_tri_ops [OF that] by simp
  from 1 2 3 n show ?thesis by blast
qed

theorem one_draw_per_iteration_witness:
  "frame env0 videoMode_main (0, [SDL_WINDOWEVENT (SDL_WINDOWEVENT_RESIZED 800 600)]) entry0 =
     Some framed0 \<and>
   [op \<leftarrow> frame_ops entry0 framed0. op_kind op = KSetIndexBuffer] = [SetIndexBuffer (Some 9)] \<and>
   length (filter is_draw (frame_ops entry0 framed0)) = 1 \<and>
   main env0 [] = (Running, entry0) \<and>
   map_of (buffers entry0) 9 = Some \<lparr> Size = 144, data = IndexData CubeIndices \<rparr> \<and>
   [op \<leftarrow> frame_ops entry0_tri (the (frame_tri env0 [] entry0_tri)). is_draw op] = [Draw 3]"
proof -
  have i: "cubeIndexBuffer entry0 = Some 9"
    by (simp add: entry0_def)
  from one_draw_per_iteration [of env0 videoMode_main
      "(0, [SDL_WINDOWEVENT (SDL_WINDOWEVENT_RESIZED 800 600)])" entry0 framed0 entry0 9
      "[]" entry0_tri "the (frame_tri env0 [] entry0_tri)"]
    frame_env0_resize frame_tri_env0 i main_env0_nil
  show ?thesis by simp
qed

lemma poll_events_append:
  "poll_events e (evs @ evs') s =
     (case poll_events e evs s of None \<Rightarrow> None | Some s1 \<Rightarrow> poll_events e evs' s1)"
  by (induction evs arbitrary: s) (auto split: option.splits)

lemma size_after_last: "size_after z (rs @ [(w, h)]) = Some (w, h)"
  by (simp add: size_after_append)

lemma main_env0_one:
  "main env0 [(0, [SDL_WINDOWEVENT (SDL_WINDOWEVENT_RESIZED 800 600)])] = (Running, framed0)"
proof -
  have c: "\<not> m_windowShouldClose framed0"
    by (simp add: framed0_def entry0_def)
  from main_nil [OF main_env0_nil, of "[(0, [SDL_WINDOWEVENT (SDL_WINDOWEVENT_RESIZED 800 600)])]"]
    frame_env0_resize c
  show ?thesis by simp
qed
















text \<open>C8, as stated, fails in the triangle variant. Its polling loop ends at the first
  quit event, so a resize event queued behind a quit event is still pending when the
  render step runs; and a resize event that is polled triggers no resize: the swap chain
  still reports 1280 by 720 after the iteration, whose calls contain no \<open>Resize\<close>.\<close>

theorem poll_events_tri_leaves_events:
  "main_tri env0 [] = (Running, entry0_tri) \<and>
   snd (poll_events_tri [SDL_QUIT, SDL_WINDOWEVENT (SDL_WINDOWEVENT_RESIZED 800 600)] entry0_tri) =
     [SDL_WINDOWEVENT (SDL_WINDOWEVENT_RESIZED 800 600)] \<and>
   reported_size entry0_tri = Some (1280, 720) \<and>
   map_option reported_size
     (frame_tri env0 [SDL_WINDOWEVENT (SDL_WINDOWEVENT_RESIZED 800 600)] entry0_tri) =
     Some (Some (1280, 720)) \<and>
   map_option (\<lambda>t. map op_kind (gpu_log t))
     (frame_tri env0 [SDL_WINDOWEVENT (SDL_WINDOWEVENT_RESIZED 800 600)] entry0_tri) =
     Some [KSetRenderTargets, KClearRenderTarget, KClearDepthStencil, KSetPipelineState,
           KDraw, KPresent]"
  using main_tri_env0_nil
  by (simp add: frame_tri_def render_tri_def ctx_call_def Let_def entry0_tri_def
      reported_size_def)

text \<open>C8, amended: in the cube variant every iteration first handles all the events its
  polls return, in order, and then runs the render step; each resize event calls
  \<^verbatim>\<open>OnResize\<close> within that iteration, so the swap chain resizes precede the calls of the
  render step in the log, and the render step runs with the projection matrix and the
  swap chain dimensions of the last resize event. In the triangle variant the polling
  ends with the first quit event, the events behind it stay in the queue, and no event
  other than quit changes the state (resize events are not handled).\<close>

theorem events_before_render:
  "(frame e videoMode inp s = Some s' \<longrightarrow>
      (\<exists>s1. poll_events e (snd inp) s = Some s1 \<and> render e videoMode (fst inp) s1 = Some s' \<and>
         frame_ops s s' = map (\<lambda>(w, h). Resize w h) (resizes (snd inp)) @ frame_ops s1 s' \<and>
         map op_kind (frame_ops s1 s') = render_kinds \<and>
         m_windowShouldClose s1 = (m_windowShouldClose s \<or> SDL_QUIT \<in> set (snd inp)) \<and>
         m_projMatrix s1 = projection_after e (m_projMatrix s) (resizes (snd inp)) \<and>
         reported_size s1 = size_after (reported_size s) (resizes (snd inp)) \<and>
         m_projMatrix s' = m_projMatrix s1 \<and> reported_size s' = reported_size s1)) \<and>
   poll_events e (evs @ evs') s =
     (case poll_events e evs s of None \<Rightarrow> None | Some s1 \<Rightarrow> poll_events e evs' s1) \<and>
   size_after z (rs @ [(w, h)]) = Some (w, h) \<and>
   projection_after e p (rs @ [(w, h)]) = projection_for e (aspect_of e w h) \<and>
   fst (poll_events_tri evs t) =
     (if SDL_QUIT \<in> set evs then t\<lparr> m_windowShouldClose := True \<rparr> else t) \<and>
   snd (poll_events_tri evs t) = tl (dropWhile (\<lambda>ev. ev \<noteq> SDL_QUIT) evs) \<and>
   frame_tri e evs t = render_tri e (fst (poll_events_tri evs t))"
proof -
  have 1: "\<exists>s1. poll_events e (snd inp) s = Some s1 \<and> render e videoMode (fst inp) s1 = Some s' \<and>
         frame_ops s s' = map (\<lambda>(w, h). Resize w h) (resizes (snd inp)) @ frame_ops s1 s' \<and>
         map op_kind (frame_ops s1 s') = render_kinds \<and>
         m_windowShouldClose s1 = (m_windowShouldClose s \<or> SDL_QUIT \<in> set (snd inp)) \<and>
         m_projMatrix s1 = projection_after e (m_projMatrix s) (resizes (snd inp)) \<and>
         reported_size s1 = size_after (reported_size s) (resizes (snd inp)) \<and>
         m_projMatrix s' = m_projMatrix s1 \<and> reported_size s' = reported_size s1"
    if f: "frame e videoMode inp s = Some s'"
  proof -
    from frame_split [OF f] obtain s1 where p: "poll_events e (snd inp) s = Some s1"
      and r: "render e videoMode (fst inp) s1 = Some s'"
      and fo: "frame_ops s s' = map (\<lambda>(w, h). Resize w h) (resizes (snd inp)) @ frame_ops s1 s'"
      by blast
    from render_ops [OF r] have k: "map op_kind (frame_ops s1 s') = render_kinds"
      by (auto simp: render_kinds_def)
    from p r fo k poll_events_close [OF p] poll_events_proj [OF p] render_same [OF r]
    show ?thesis by auto
  qed
  from 1 show ?thesis
    by (simp add: poll_events_append size_after_last projection_after_last
        poll_events_tri_state poll_events_tri_rest frame_tri_def)
qed

theorem events_before_render_witness:
  "frame env0 videoMode_main (0, [SDL_WINDOWEVENT (SDL_WINDOWEVENT_RESIZED 800 600)]) entry0 =
     Some framed0 \<and>
   poll_events env0 [SDL_WINDOWEVENT (SDL_WINDOWEVENT_RESIZED 800 600)] entry0 = Some resized0 \<and>
   render env0 videoMode_main 0 resized0 = Some framed0 \<and>
   frame_ops entry0 framed0 = Resize 800 600 # frame_ops resized0 framed0 \<and>
   reported_size framed0 = Some (800, 600) \<and>
   m_projMatrix framed0 = ProjectionM (355 / 226) (4 / 3) (1 / 10) 1000 False"
proof -
  have p: "poll_events env0 [SDL_WINDOWEVENT (SDL_WINDOWEVENT_RESIZED 800 600)] entry0 =
      Some resized0"
    by (simp add: OnResize_entry0)
  from events_before_render [of env0 videoMode_main
      "(0, [SDL_WINDOWEVENT (SDL_WINDOWEVENT_RESIZED 800 600)])" entry0 framed0]
    frame_env0_resize p
  show ?thesis
    by (auto simp: env0_fields projection_for_def aspect_of_def reported_size_def entry0_def
        resized0_def)
qed

end
